theory Spec2Isabelle
  imports Complex_Main "HOL-Library.Word"
begin

section \<open>Input sanitisation and field validation (client utilities)\<close>

subsection \<open>JavaScript values reaching the string utilities\<close>

text \<open>
  The utilities receive form values. A value is a string or something else (a number,
  \<^verbatim>\<open>undefined\<close>, an object); the parameter \<open>'a\<close> stands for the non-string values.
\<close>

datatype 'a js_input = JString string | JOther 'a

datatype js_error = TypeError

text \<open>
  \<^verbatim>\<open>s.replace(/c/g, r)\<close> for a one-character pattern \<open>c\<close> and a replacement \<open>r\<close>
  without \<^verbatim>\<open>$\<close>: every occurrence of \<open>c\<close> becomes \<open>r\<close>, left to right.
\<close>

definition replace_g :: "char \<Rightarrow> string \<Rightarrow> string \<Rightarrow> string" where
  "replace_g c r s = concat (map (\<lambda>x. if x = c then r else [x]) s)"

text \<open>
  \<^verbatim>\<open>sanitizeInput\<close> of \<^verbatim>\<open>src/utils/securityUtils.js\<close>: a non-string is returned as it
  is; a string goes through seven global replacements, in this order.
\<close>

definition sanitizeInput :: "'a js_input \<Rightarrow> 'a js_input" where
  "sanitizeInput input =
     (case input of
        JOther v \<Rightarrow> JOther v
      | JString s \<Rightarrow>
          JString
            (replace_g (CHR ''='') ''&#x3D;''
              (replace_g (CHR 0x60) ''&#96;''
                (replace_g (CHR ''/'') ''&#x2F;''
                  (replace_g (CHR 0x27) ''&#x27;''
                    (replace_g (CHR 0x22) ''&quot;''
                      (replace_g (CHR ''>'') ''&gt;''
                        (replace_g (CHR ''<'') ''&lt;'' s))))))))"

text \<open>
  \<^verbatim>\<open>sanitizeInput\<close> of the validation helpers (\<^verbatim>\<open>unnamed/part_003\<close>): no
  \<^verbatim>\<open>typeof\<close> guard, so a value without a \<^verbatim>\<open>replace\<close> method raises a TypeError;
  five replacements.
\<close>

definition sanitizeInput_validation :: "'a js_input \<Rightarrow> js_error + string" where
  "sanitizeInput_validation input =
     (case input of
        JOther v \<Rightarrow> Inl TypeError
      | JString s \<Rightarrow>
          Inr
            (replace_g (CHR ''/'') ''&#x2F;''
              (replace_g (CHR 0x27) ''&#x27;''
                (replace_g (CHR 0x22) ''&quot;''
                  (replace_g (CHR ''>'') ''&gt;''
                    (replace_g (CHR ''<'') ''&lt;'' s))))))"

text \<open>The characters the seven-step sanitizer escapes, and the five of the shorter one.\<close>

definition escaped7 :: "char set" where
  "escaped7 = {CHR ''<'', CHR ''>'', CHR 0x22, CHR 0x27, CHR ''/'', CHR 0x60, CHR ''=''}"

definition escaped5 :: "char set" where
  "escaped5 = {CHR ''<'', CHR ''>'', CHR 0x22, CHR 0x27, CHR ''/''}"

subsection \<open>Phone validators\<close>

text \<open>
  Both phone patterns are anchored at both ends and consume one character per position, so
  a pattern is the list of its character classes and a string matches when it has the
  pattern's length and every character lies in the class of its position. (Without the
  \<^verbatim>\<open>m\<close> flag \<^verbatim>\<open>$\<close> matches at the end of the input only; \<^verbatim>\<open>\d\<close> is \<^verbatim>\<open>[0-9]\<close>.)
\<close>

type_synonym char_class = "char list"

definition digit_class :: char_class where
  "digit_class = ''0123456789''"

definition anchored_test :: "char_class list \<Rightarrow> string \<Rightarrow> bool" where
  "anchored_test pat s = list_all2 (\<lambda>cls c. c \<in> set cls) pat s"

text \<open>\<^verbatim>\<open>isValidPhone\<close> (securityUtils.js): \<^verbatim>\<open>/^[6-9]\d{9}$/\<close>.\<close>

definition phoneRegex :: "char_class list" where
  "phoneRegex = ''6789'' # replicate 9 digit_class"

definition isValidPhone :: "string \<Rightarrow> bool" where
  "isValidPhone phone = anchored_test phoneRegex phone"

text \<open>\<^verbatim>\<open>validatePhone\<close> (validation helpers): \<^verbatim>\<open>/^\d{10}$/\<close>.\<close>

definition validatePhone :: "string \<Rightarrow> bool" where
  "validatePhone phone = anchored_test (replicate 10 digit_class) phone"

text \<open>
  The specification's wording of the registrant rule, for comparison with
  \<open>isValidPhone\<close>: ten characters, all digits, the first one of 6, 7, 8, 9.
\<close>

definition spec_ten_digits_leading_6_to_9 :: "string \<Rightarrow> bool" where
  "spec_ten_digits_leading_6_to_9 s =
     (length s = 10 \<and> list_all (\<lambda>c. c \<in> set digit_class) s \<and> hd s \<in> set ''6789'')"

section \<open>The payment server: data model\<close>

subsection \<open>JavaScript conventions\<close>

text \<open>
  Request fields, headers, environment variables and document fields are strings that may
  be absent (\<^verbatim>\<open>undefined\<close>). A string is truthy when it is present and not empty;
  concatenating an absent one yields the text \<^verbatim>\<open>undefined\<close>.
\<close>

definition truthy :: "string option \<Rightarrow> bool" where
  "truthy v = (case v of None \<Rightarrow> False | Some s \<Rightarrow> s \<noteq> [])"

definition js_string :: "string option \<Rightarrow> string" where
  "js_string v = (case v of None \<Rightarrow> ''undefined'' | Some s \<Rightarrow> s)"

datatype jsnum = Num int | NaN

subsection \<open>JavaScript strings and their UTF-8 encoding\<close>

text \<open>
  A JavaScript string is a sequence of 16-bit code units, and \<^verbatim>\<open>===\<close> on strings compares
  code units. The fields of the verification request are modelled as such sequences;
  \<open>utf16\<close> takes a string of the model, whose characters are all below 256, to its code
  units, and an absent field concatenates as the text \<^verbatim>\<open>undefined\<close>.
\<close>

type_synonym utf16_string = "16 word list"

definition utf16 :: "string \<Rightarrow> utf16_string" where
  "utf16 s = map of_char s"

definition js_utf16 :: "utf16_string option \<Rightarrow> utf16_string" where
  "js_utf16 v = (case v of None \<Rightarrow> utf16 ''undefined'' | Some s \<Rightarrow> s)"

text \<open>
  \<^verbatim>\<open>hmac.update(string)\<close> of Node's \<^verbatim>\<open>crypto\<close> module hashes the UTF-8 encoding of the
  string, its default input encoding. The encoder, the one of \<^verbatim>\<open>Buffer.from(string)\<close>,
  writes a surrogate pair as the four bytes of its code point and a surrogate code unit
  that is not part of a pair as the three bytes \<^verbatim>\<open>EF BF BD\<close> of U+FFFD.
\<close>

definition high_surrogate :: "16 word \<Rightarrow> bool" where
  "high_surrogate c = (0xD800 \<le> unat c \<and> unat c < 0xDC00)"

definition low_surrogate :: "16 word \<Rightarrow> bool" where
  "low_surrogate c = (0xDC00 \<le> unat c \<and> unat c < 0xE000)"

definition utf8_of_code_point :: "nat \<Rightarrow> nat list" where
  "utf8_of_code_point cp =
     (if cp < 0x80 then [cp]
      else if cp < 0x800 then [0xC0 + cp div 64, 0x80 + cp mod 64]
      else if cp < 0x10000 then
        [0xE0 + cp div 4096, 0x80 + cp div 64 mod 64, 0x80 + cp mod 64]
      else
        [0xF0 + cp div 262144, 0x80 + cp div 4096 mod 64, 0x80 + cp div 64 mod 64,
         0x80 + cp mod 64])"

fun utf8_bytes :: "utf16_string \<Rightarrow> nat list" where
  "utf8_bytes [] = []"
| "utf8_bytes [c] =
     (if high_surrogate c \<or> low_surrogate c then utf8_of_code_point 0xFFFD
      else utf8_of_code_point (unat c))"
| "utf8_bytes (c # d # cs) =
     (if high_surrogate c \<and> low_surrogate d then
        utf8_of_code_point (0x10000 + (unat c - 0xD800) * 0x400 + (unat d - 0xDC00)) @
        utf8_bytes cs
      else if high_surrogate c \<or> low_surrogate c then
        utf8_of_code_point 0xFFFD @ utf8_bytes (d # cs)
      else utf8_of_code_point (unat c) @ utf8_bytes (d # cs))"

definition utf8_encode :: "utf16_string \<Rightarrow> string" where
  "utf8_encode s = map char_of (utf8_bytes s)"



subsection \<open>The plan catalog\<close>

record plan =
  price :: int
  name :: string
  duration :: string

definition MEMBERSHIP_PLANS :: "(string \<times> plan) list" where
  "MEMBERSHIP_PLANS =
     [(''one-year'',
         \<lparr>price = 358, name = ''1-Year Executive Membership'', duration = ''1 Year''\<rparr>),
      (''two-year'',
         \<lparr>price = 664, name = ''2-Year Executive Membership'', duration = ''2 Years''\<rparr>),
      (''three-year'',
         \<lparr>price = 919, name = ''3-Year Executive Membership'', duration = ''3 Years''\<rparr>)]"

text \<open>
  \<^verbatim>\<open>MEMBERSHIP_PLANS[planId]\<close> is a property read on an object literal: an own key gives
  its plan, a key of \<^verbatim>\<open>Object.prototype\<close> gives the inherited member (a truthy value
  that is no plan), any other key gives \<^verbatim>\<open>undefined\<close>.
\<close>

datatype property = OwnPlan plan | Inherited string | Undefined

definition object_prototype_keys :: "string list" where
  "object_prototype_keys =
     [''constructor'', ''__proto__'', ''hasOwnProperty'', ''isPrototypeOf'',
      ''propertyIsEnumerable'', ''toLocaleString'', ''toString'', ''valueOf'',
      ''__defineGetter__'', ''__defineSetter__'', ''__lookupGetter__'', ''__lookupSetter__'']"

definition plan_property :: "string \<Rightarrow> property" where
  "plan_property planId =
     (case map_of MEMBERSHIP_PLANS planId of
        Some p \<Rightarrow> OwnPlan p
      | None \<Rightarrow> if planId \<in> set object_prototype_keys then Inherited planId else Undefined)"

text \<open>\<^verbatim>\<open>plan.price * 100\<close>: an inherited member has no price, and
  \<^verbatim>\<open>undefined * 100\<close> is NaN.\<close>

definition amount_in_paise :: "property \<Rightarrow> jsnum" where
  "amount_in_paise p = (case p of OwnPlan pl \<Rightarrow> Num (price pl * 100) | _ \<Rightarrow> NaN)"

text \<open>\<^verbatim>\<open>plan.name\<close>: a plan's name; for an inherited function its function name; the
  prototype object itself has none.\<close>

definition plan_name :: "property \<Rightarrow> string option" where
  "plan_name p =
     (case p of
        OwnPlan pl \<Rightarrow> Some (name pl)
      | Inherited k \<Rightarrow>
          (if k = ''__proto__'' then None
           else if k = ''constructor'' then Some ''Object'' else Some k)
      | Undefined \<Rightarrow> None)"

subsection \<open>Requests, responses and the gateway\<close>

text \<open>
  The body of \<^verbatim>\<open>POST /create-order\<close>. The handler destructures \<^verbatim>\<open>planId\<close> and
  \<^verbatim>\<open>userId\<close> only; \<open>req_amount\<close> is the \<^verbatim>\<open>amount\<close> field the client sends along.
\<close>

record create_order_body =
  req_planId :: "string option"
  req_userId :: "string option"
  req_amount :: "int option"

text \<open>The options handed to \<^verbatim>\<open>razorpay.orders.create\<close>; the receipt
  \<^verbatim>\<open>order_${Date.now()}\<close> is kept as its timestamp.\<close>

record order_options =
  opt_amount :: jsnum
  opt_currency :: string
  opt_receipt :: int
  note_userId :: "string option"
  note_planId :: string
  note_planName :: "string option"

record gateway_order =
  order_id :: string
  order_amount :: int
  order_currency :: string

datatype json_body =
    ErrorJson string
  | OrderJson string int string "string option"
  | VerifiedJson bool "string option"
  | StatusJson string

text \<open>What a handler run ends in: a response with its status code, or an exception that
  leaves the handler (none of the handlers answers in that case).\<close>

datatype outcome = Response nat json_body | Unhandled js_error

record verify_body =
  razorpay_order_id :: "utf16_string option"
  razorpay_payment_id :: "utf16_string option"
  razorpay_signature :: "utf16_string option"

text \<open>The webhook envelope. \<open>entity\<close> is \<^verbatim>\<open>payload.payment.entity\<close> and \<open>pay_notes\<close> its
  \<^verbatim>\<open>notes\<close> object; reading through an absent one raises a TypeError.\<close>

record payment_notes =
  notes_userId :: "string option"
  notes_planId :: "string option"

record payment_entity =
  pay_id :: string
  pay_order_id :: string
  pay_amount :: int
  pay_currency :: string
  pay_notes :: "payment_notes option"

record webhook_body =
  event :: "string option"
  entity :: "payment_entity option"

subsection \<open>The document store\<close>

text \<open>
  A user document's \<^verbatim>\<open>membership\<close> map with the fields either version of the server
  writes, the rest of the document, and the append-only \<^verbatim>\<open>payments\<close> collection.
  Timestamps are milliseconds since the epoch.
\<close>

record membership =
  m_status :: "string option"
  m_type :: "string option"
  m_planId :: "string option"
  m_startDate :: "int option"
  m_expiresAt :: "int option"
  m_expiryDate :: "int option"

record user_doc =
  doc_membership :: "membership option"
  doc_role :: "string option"
  doc_updatedAt :: "int option"

record payment_row =
  row_userId :: string
  row_paymentId :: string
  row_orderId :: string
  row_amount :: rat
  row_currency :: string
  row_status :: string
  row_planId :: string
  row_createdAt :: int

record firestore =
  users :: "string \<rightharpoonup> user_doc"
  payments :: "payment_row list"

definition empty_membership :: membership where
  "empty_membership =
     \<lparr>m_status = None, m_type = None, m_planId = None, m_startDate = None,
      m_expiresAt = None, m_expiryDate = None\<rparr>"

definition empty_doc :: user_doc where
  "empty_doc = \<lparr>doc_membership = None, doc_role = None, doc_updatedAt = None\<rparr>"

text \<open>
  \<^verbatim>\<open>userRef.set({membership: {...}, role, updatedAt}, {merge: true})\<close>: the document is
  created when it is missing; the fields named in the call are overwritten, inside the
  nested \<^verbatim>\<open>membership\<close> map as well, and every other field stays. \<open>upd\<close> writes the
  membership fields of the call.
\<close>

definition set_merge ::
  "string \<Rightarrow> (membership \<Rightarrow> membership) \<Rightarrow> int \<Rightarrow> firestore \<Rightarrow> firestore" where
  "set_merge uid upd ts db =
     (let d = (case users db uid of None \<Rightarrow> empty_doc | Some d \<Rightarrow> d);
          m = (case doc_membership d of None \<Rightarrow> empty_membership | Some m \<Rightarrow> m)
      in db\<lparr>users := (users db)(uid \<mapsto>
            d\<lparr>doc_membership := Some (upd m),
              doc_role := Some ''EXECUTIVE MEMBER'',
              doc_updatedAt := Some ts\<rparr>)\<rparr>)"

text \<open>\<^verbatim>\<open>db.collection('payments').add(row)\<close>.\<close>

definition add_payment :: "payment_row \<Rightarrow> firestore \<Rightarrow> firestore" where
  "add_payment row db = db\<lparr>payments := payments db @ [row]\<rparr>"

text \<open>\<^verbatim>\<open>membership\<close> of the document of a user, when both exist.\<close>

definition membership_of :: "firestore \<Rightarrow> string \<Rightarrow> membership option" where
  "membership_of db uid = Option.bind (users db uid) doc_membership"

subsection \<open>The environment of a request\<close>

text \<open>
  What a handler run takes from outside the repository: the environment variables, the
  HMAC-SHA256 of Node's \<^verbatim>\<open>crypto\<close> (key, then message, to a hex digest),
  \<^verbatim>\<open>JSON.stringify\<close> on the parsed body, the gateway client (\<open>None\<close>: it throws), the
  clock, the store's server timestamp, the time zone of the process, and whether a
  store call of each kind throws during this run. \<open>LocalTZA t isUTC\<close> is the offset of
  local time from UTC in milliseconds, as in the ECMAScript specification: at the instant
  \<open>t\<close> when \<open>isUTC\<close> holds, and for the local time value \<open>t\<close> otherwise; it changes
  with \<open>t\<close> where the zone has daylight saving.
\<close>

record server_env =
  RAZORPAY_KEY_ID :: "string option"
  RAZORPAY_KEY_SECRET :: "string option"
  WEBHOOK_SECRET :: "string option"
  hmac_sha256_hex :: "string \<Rightarrow> string \<Rightarrow> string"
  JSON_stringify :: "webhook_body \<Rightarrow> string"
  razorpay_orders_create :: "order_options \<Rightarrow> gateway_order option"
  Date_now :: int
  serverTimestamp :: int
  LocalTZA :: "int \<Rightarrow> bool \<Rightarrow> int"
  get_throws :: bool
  set_throws :: bool
  add_throws :: bool

section \<open>Dates\<close>

text \<open>
  The handler of the later server version computes the expiry with
  \<^verbatim>\<open>setDate\<close>, \<^verbatim>\<open>getDate\<close>, \<^verbatim>\<open>setFullYear\<close> and \<^verbatim>\<open>getFullYear\<close>. They are
  modelled after the abstract operations of the ECMAScript specification on time values
  (milliseconds since the epoch); the offset between local time and UTC is the function
  \<open>tza\<close> of the zone, read at the time it is applied to.
\<close>

definition msPerDay :: int where
  "msPerDay = 86400000"

definition Day :: "int \<Rightarrow> int" where
  "Day t = t div msPerDay"

definition TimeWithinDay :: "int \<Rightarrow> int" where
  "TimeWithinDay t = t mod msPerDay"

definition DaysInYear :: "int \<Rightarrow> int" where
  "DaysInYear y =
     (if y mod 4 \<noteq> 0 then 365 else if y mod 100 \<noteq> 0 then 366
      else if y mod 400 \<noteq> 0 then 365 else 366)"

definition DayFromYear :: "int \<Rightarrow> int" where
  "DayFromYear y =
     365 * (y - 1970) + (y - 1969) div 4 - (y - 1901) div 100 + (y - 1601) div 400"

text \<open>
  \<^verbatim>\<open>YearFromTime\<close> is the largest year whose first day is not after the day of \<open>t\<close>.
  The search walks down from a year that is late enough: no year has fewer than 365 days
  or more than 366.
\<close>

function year_search :: "int \<Rightarrow> int \<Rightarrow> int" where
  "year_search d y = (if DayFromYear y \<le> d then y else year_search d (y - 1))"
  by pat_completeness auto
termination
proof (relation "measure (\<lambda>(d, y). nat (DayFromYear y - d))")
  show "wf (measure (\<lambda>(d, y). nat (DayFromYear y - d)))" by simp
next
  fix d y :: int
  assume later: "\<not> DayFromYear y \<le> d"
  have down: "(a - 1) div k \<le> a div k" if "0 < k" for a k :: int
    by (rule zdiv_mono1) (use that in simp_all)
  have up: "a div k \<le> (a - 1) div k + 1" if "0 < k" for a k :: int
  proof -
    have "a div k \<le> (a - 1 + k) div k"
      by (rule zdiv_mono1) (use that in simp_all)
    also have "\<dots> = (a - 1) div k + 1"
      using that by simp
    finally show ?thesis .
  qed
  have lin: "a' \<le> a \<Longrightarrow> b \<le> b' + 1 \<Longrightarrow> c' \<le> c \<Longrightarrow>
      365 * (y - 1 - 1970) + a' - b' + c' < 365 * (y - 1970) + a - b + c"
    for a b c a' b' c' :: int
    by (simp add: algebra_simps)
  have a: "(y - 1 - 1969) div 4 \<le> (y - 1969) div 4"
    using down [of 4 "y - 1969"] by simp
  have b: "(y - 1901) div 100 \<le> (y - 1 - 1901) div 100 + 1"
    using up [of 100 "y - 1901"] by simp
  have c: "(y - 1 - 1601) div 400 \<le> (y - 1601) div 400"
    using down [of 400 "y - 1601"] by simp
  have "DayFromYear (y - 1) < DayFromYear y"
    unfolding DayFromYear_def by (rule lin [OF a b c])
  with later show "((d, y - 1), (d, y)) \<in> measure (\<lambda>(d, y). nat (DayFromYear y - d))"
    by simp
qed

definition YearFromTime :: "int \<Rightarrow> int" where
  "YearFromTime t =
     year_search (Day t) (1970 + (if 0 \<le> Day t then Day t div 365 else Day t div 366))"

definition InLeapYear :: "int \<Rightarrow> int" where
  "InLeapYear t = (if DaysInYear (YearFromTime t) = 366 then 1 else 0)"

definition DayWithinYear :: "int \<Rightarrow> int" where
  "DayWithinYear t = Day t - DayFromYear (YearFromTime t)"

text \<open>The number of days of the year before month \<open>m\<close> (0 for January, 11 for December);
  \<open>leap\<close> is 1 in a leap year and 0 otherwise.\<close>

definition days_before_month :: "int \<Rightarrow> int \<Rightarrow> int" where
  "days_before_month leap m =
     (if m = 0 then 0 else if m = 1 then 31 else if m = 2 then 59 + leap
      else if m = 3 then 90 + leap else if m = 4 then 120 + leap
      else if m = 5 then 151 + leap else if m = 6 then 181 + leap
      else if m = 7 then 212 + leap else if m = 8 then 243 + leap
      else if m = 9 then 273 + leap else if m = 10 then 304 + leap else 334 + leap)"

definition MonthFromTime :: "int \<Rightarrow> int" where
  "MonthFromTime t =
     (let d = DayWithinYear t; leap = InLeapYear t
      in if d < 31 then 0 else if d < 59 + leap then 1 else if d < 90 + leap then 2
         else if d < 120 + leap then 3 else if d < 151 + leap then 4
         else if d < 181 + leap then 5 else if d < 212 + leap then 6
         else if d < 243 + leap then 7 else if d < 273 + leap then 8
         else if d < 304 + leap then 9 else if d < 334 + leap then 10 else 11)"

definition DateFromTime :: "int \<Rightarrow> int" where
  "DateFromTime t = DayWithinYear t - days_before_month (InLeapYear t) (MonthFromTime t) + 1"

text \<open>\<^verbatim>\<open>MakeDay\<close>: the day number of the first of the month (months beyond 0..11 carry
  into the year), then \<open>date - 1\<close> days on: a date of 0 is the last day of the month
  before, a 29 February of a common year is 1 March.\<close>

definition MakeDay :: "int \<Rightarrow> int \<Rightarrow> int \<Rightarrow> int" where
  "MakeDay year month date =
     (let ym = year + month div 12; mn = month mod 12;
          leap = (if DaysInYear ym = 366 then 1 else 0)
      in DayFromYear ym + days_before_month leap mn + date - 1)"

definition MakeDate :: "int \<Rightarrow> int \<Rightarrow> int" where
  "MakeDate day time = day * msPerDay + time"

type_synonym time_zone = "int \<Rightarrow> bool \<Rightarrow> int"

definition LocalTime :: "time_zone \<Rightarrow> int \<Rightarrow> int" where
  "LocalTime tza t = t + tza t True"

definition UTC :: "time_zone \<Rightarrow> int \<Rightarrow> int" where
  "UTC tza t = t - tza t False"

definition getDate :: "time_zone \<Rightarrow> int \<Rightarrow> int" where
  "getDate tza t = DateFromTime (LocalTime tza t)"

definition getFullYear :: "time_zone \<Rightarrow> int \<Rightarrow> int" where
  "getFullYear tza t = YearFromTime (LocalTime tza t)"

definition setDate :: "time_zone \<Rightarrow> int \<Rightarrow> int \<Rightarrow> int" where
  "setDate tza t dt =
     (let lt = LocalTime tza t
      in UTC tza (MakeDate (MakeDay (YearFromTime lt) (MonthFromTime lt) dt) (TimeWithinDay lt)))"

definition setFullYear :: "time_zone \<Rightarrow> int \<Rightarrow> int \<Rightarrow> int" where
  "setFullYear tza t y =
     (let lt = LocalTime tza t
      in UTC tza (MakeDate (MakeDay y (MonthFromTime lt) (DateFromTime lt)) (TimeWithinDay lt)))"

section \<open>The payment server: handlers\<close>

text \<open>
  The repository holds two versions of the server: \<^verbatim>\<open>backend/index.js\<close> (suffix
  \<open>_index\<close>) and a later one, \<^verbatim>\<open>unnamed/part_005\<close> (suffix \<open>_part005\<close>), which adds a
  guard to \<^verbatim>\<open>/create-order\<close> and changes the membership fields the webhook writes.
  \<^verbatim>\<open>/verify-payment\<close> and the rest of the two files are the same text.
\<close>

subsection \<open>POST /create-order\<close>

text \<open>
  The second half of the handler, the same in both versions: the amount from the catalog,
  the order options, the gateway call and the answer. The first component of the result
  is the request made to the gateway, if one was made.
\<close>

definition request_order ::
  "server_env \<Rightarrow> create_order_body \<Rightarrow> string \<Rightarrow> order_options option \<times> outcome" where
  "request_order env body planId =
     (let plan = plan_property planId;
          amount = amount_in_paise plan;
          options =
            \<lparr>opt_amount = amount, opt_currency = ''INR'', opt_receipt = Date_now env,
             note_userId = req_userId body, note_planId = planId,
             note_planName = plan_name plan\<rparr>
      in case razorpay_orders_create env options of
           None \<Rightarrow> (Some options, Response 500 (ErrorJson ''Failed to create order''))
         | Some order \<Rightarrow>
             (Some options,
              Response 200
                (OrderJson (order_id order) (order_amount order) (order_currency order)
                   (RAZORPAY_KEY_ID env))))"

definition create_order_index ::
  "server_env \<Rightarrow> create_order_body \<Rightarrow> order_options option \<times> outcome" where
  "create_order_index env body =
     (case req_planId body of
        None \<Rightarrow> (None, Response 400 (ErrorJson ''Invalid plan selected''))
      | Some planId \<Rightarrow>
          if planId = [] \<or> plan_property planId = Undefined
          then (None, Response 400 (ErrorJson ''Invalid plan selected''))
          else request_order env body planId)"

text \<open>\<^verbatim>\<open>db.collection('users').doc(userId).get()\<close>: \<open>None\<close> when the call throws (an
  absent or empty id is no document path), otherwise the snapshot, which may not exist.\<close>

definition get_user :: "server_env \<Rightarrow> firestore \<Rightarrow> string option \<Rightarrow> user_doc option option" where
  "get_user env db userId =
     (case userId of
        None \<Rightarrow> None
      | Some uid \<Rightarrow> if uid = [] \<or> get_throws env then None else Some (users db uid))"

definition active_unexpired :: "server_env \<Rightarrow> user_doc \<Rightarrow> bool" where
  "active_unexpired env userData =
     (case doc_membership userData of
        None \<Rightarrow> False
      | Some m \<Rightarrow>
          m_status m = Some ''active'' \<and>
          (case m_expiresAt m of None \<Rightarrow> False | Some expiry \<Rightarrow> expiry > Date_now env))"

definition create_order_part005 ::
  "server_env \<Rightarrow> firestore \<Rightarrow> create_order_body \<Rightarrow> order_options option \<times> outcome" where
  "create_order_part005 env db body =
     (case req_planId body of
        None \<Rightarrow> (None, Response 400 (ErrorJson ''Invalid plan selected''))
      | Some planId \<Rightarrow>
          if planId = [] \<or> plan_property planId = Undefined
          then (None, Response 400 (ErrorJson ''Invalid plan selected''))
          else
            (case get_user env db (req_userId body) of
               None \<Rightarrow> (None, Response 500 (ErrorJson ''Failed to create order''))
             | Some userDoc \<Rightarrow>
                 if (case userDoc of
                       None \<Rightarrow> False
                     | Some userData \<Rightarrow> active_unexpired env userData)
                 then (None, Response 400 (ErrorJson ''User already has an active subscription''))
                 else request_order env body planId))"

subsection \<open>POST /verify-payment\<close>

text \<open>\<^verbatim>\<open>createHmac\<close> throws on an absent key; the handler's \<^verbatim>\<open>catch\<close> answers 500.
  \<^verbatim>\<open>update\<close> hashes the UTF-8 encoding of \<open>sign\<close>, and the hex digest is compared with the
  signature of the request as a string.\<close>

definition verify_payment :: "server_env \<Rightarrow> verify_body \<Rightarrow> outcome" where
  "verify_payment env body =
     (let sign = js_utf16 (razorpay_order_id body) @ utf16 ''|'' @
                 js_utf16 (razorpay_payment_id body)
      in case RAZORPAY_KEY_SECRET env of
           None \<Rightarrow> Response 500 (ErrorJson ''Verification failed'')
         | Some secret \<Rightarrow>
             let expectedSign = utf16 (hmac_sha256_hex env secret (utf8_encode sign))
             in if razorpay_signature body = Some expectedSign
                then Response 200 (VerifiedJson True None)
                else Response 400 (VerifiedJson False (Some ''Invalid signature'')))"


subsection \<open>POST /webhook\<close>

text \<open>The membership fields written by \<^verbatim>\<open>backend/index.js\<close>: the expiry is a number of
  days after now.\<close>

definition duration_days :: "string \<Rightarrow> int" where
  "duration_days planId =
     (if planId = ''one-year'' then 365 else if planId = ''two-year'' then 730 else 1095)"

definition membership_index :: "server_env \<Rightarrow> string \<Rightarrow> membership \<Rightarrow> membership" where
  "membership_index env planId m =
     m\<lparr>m_status := Some ''active'',
       m_planId := Some planId,
       m_startDate := Some (serverTimestamp env),
       m_expiryDate := Some (Date_now env + duration_days planId * 24 * 60 * 60 * 1000)\<rparr>"

text \<open>The membership fields written by the later version: yesterday, then whole years on.\<close>

definition durationYears :: "string \<Rightarrow> int" where
  "durationYears planId =
     (if planId = ''one-year'' then 1 else if planId = ''two-year'' then 2 else 3)"

definition expiresAt :: "server_env \<Rightarrow> string \<Rightarrow> int" where
  "expiresAt env planId =
     (let now = Date_now env;
          tza = LocalTZA env;
          yesterday = setDate tza now (getDate tza now - 1);
          expiryDate = setFullYear tza yesterday (getFullYear tza yesterday + durationYears planId)
      in expiryDate)"

definition membership_part005 :: "server_env \<Rightarrow> string \<Rightarrow> membership \<Rightarrow> membership" where
  "membership_part005 env planId m =
     m\<lparr>m_status := Some ''active'',
       m_type := Some planId,
       m_startDate := Some (serverTimestamp env),
       m_expiresAt := Some (expiresAt env planId)\<rparr>"

text \<open>The ledger row; \<^verbatim>\<open>payment.amount / 100\<close> is kept as the exact quotient.\<close>

definition payment_log :: "server_env \<Rightarrow> string \<Rightarrow> string \<Rightarrow> payment_entity \<Rightarrow> payment_row" where
  "payment_log env userId planId payment =
     \<lparr>row_userId = userId,
      row_paymentId = pay_id payment,
      row_orderId = pay_order_id payment,
      row_amount = of_int (pay_amount payment) / 100,
      row_currency = pay_currency payment,
      row_status = ''success'',
      row_planId = planId,
      row_createdAt = serverTimestamp env\<rparr>"

text \<open>The \<^verbatim>\<open>try\<close> block: the merge into the user document, then the append to the ledger;
  whichever throws sends the handler to its \<^verbatim>\<open>catch\<close>, which answers 500 and undoes
  nothing.\<close>

definition apply_capture ::
  "(server_env \<Rightarrow> string \<Rightarrow> membership \<Rightarrow> membership) \<Rightarrow> server_env \<Rightarrow> firestore \<Rightarrow>
   string \<Rightarrow> string \<Rightarrow> payment_entity \<Rightarrow> firestore \<times> outcome" where
  "apply_capture written env db userId planId payment =
     (if set_throws env then (db, Response 500 (ErrorJson ''Database update failed''))
      else
        let db1 = set_merge userId (written env planId) (serverTimestamp env) db
        in if add_throws env then (db1, Response 500 (ErrorJson ''Database update failed''))
           else (add_payment (payment_log env userId planId payment) db1,
                 Response 200 (StatusJson ''ok'')))"

text \<open>The handler, with the membership fields of the version as its first argument. The
  signature check and every property read before the \<^verbatim>\<open>try\<close> block are outside any
  \<^verbatim>\<open>catch\<close>.\<close>

definition webhook_handler ::
  "(server_env \<Rightarrow> string \<Rightarrow> membership \<Rightarrow> membership) \<Rightarrow> server_env \<Rightarrow> firestore \<Rightarrow>
   string option \<Rightarrow> webhook_body \<Rightarrow> firestore \<times> outcome" where
  "webhook_handler written env db signature body =
     (if \<not> truthy signature then (db, Response 400 (ErrorJson ''Missing signature''))
      else
        case WEBHOOK_SECRET env of
          None \<Rightarrow> (db, Unhandled TypeError)
        | Some secret \<Rightarrow>
            let digest = hmac_sha256_hex env secret (JSON_stringify env body)
            in if Some digest = signature then
                 if event body = Some ''payment.captured'' then
                   case entity body of
                     None \<Rightarrow> (db, Unhandled TypeError)
                   | Some payment \<Rightarrow>
                       (case pay_notes payment of
                          None \<Rightarrow> (db, Unhandled TypeError)
                        | Some n \<Rightarrow>
                            (case (notes_userId n, notes_planId n) of
                               (Some userId, Some planId) \<Rightarrow>
                                 if userId \<noteq> [] \<and> planId \<noteq> []
                                 then apply_capture written env db userId planId payment
                                 else (db, Response 200 (StatusJson ''ok''))
                             | _ \<Rightarrow> (db, Response 200 (StatusJson ''ok''))))
                 else (db, Response 200 (StatusJson ''ok''))
               else (db, Response 400 (ErrorJson ''Invalid signature'')))"

definition webhook_index ::
  "server_env \<Rightarrow> firestore \<Rightarrow> string option \<Rightarrow> webhook_body \<Rightarrow> firestore \<times> outcome" where
  "webhook_index = webhook_handler membership_index"

definition webhook_part005 ::
  "server_env \<Rightarrow> firestore \<Rightarrow> string option \<Rightarrow> webhook_body \<Rightarrow> firestore \<times> outcome" where
  "webhook_part005 = webhook_handler membership_part005"

section \<open>The client payment service\<close>

subsection \<open>The rate limiter\<close>

text \<open>
  \<^verbatim>\<open>PaymentService.rateLimitMap\<close> maps a user id to the times of the attempts it
  let through. \<^verbatim>\<open>checkRateLimit\<close> at time \<open>now\<close> keeps the times less than 300000 ms
  old; with three or more of them it throws (\<open>Inl\<close> the message) and stores nothing,
  otherwise it stores the kept times with \<open>now\<close> appended.
\<close>

type_synonym 'u rateLimitMap = "'u \<rightharpoonup> int list"

text \<open>\<^verbatim>\<open>this.rateLimitMap.get(userId) || []\<close>.\<close>

definition attempts_of :: "'u rateLimitMap \<Rightarrow> 'u \<Rightarrow> int list" where
  "attempts_of m userId = (case m userId of None \<Rightarrow> [] | Some ts \<Rightarrow> ts)"

definition checkRateLimit :: "int \<Rightarrow> 'u \<Rightarrow> 'u rateLimitMap \<Rightarrow> string + 'u rateLimitMap" where
  "checkRateLimit now userId m =
     (let userAttempts = attempts_of m userId;
          recentAttempts = filter (\<lambda>timestamp. now - timestamp < 300000) userAttempts
      in if length recentAttempts \<ge> 3
         then Inl ''Too many payment attempts. Please try again later.''
         else Inr (m(userId \<mapsto> recentAttempts @ [now])))"

text \<open>A sequence of attempts, each a user id with the clock reading of its call; the result
  lists the attempts that were let through.\<close>

fun allowed_attempts :: "'u rateLimitMap \<Rightarrow> ('u \<times> int) list \<Rightarrow> ('u \<times> int) list" where
  "allowed_attempts m [] = []"
| "allowed_attempts m ((u, t) # rest) =
     (case checkRateLimit t u m of
        Inl msg \<Rightarrow> allowed_attempts m rest
      | Inr m' \<Rightarrow> (u, t) # allowed_attempts m' rest)"

text \<open>The attempts of user \<open>u\<close> among \<open>as\<close> whose time lies in the window of 300000 ms
  that starts at \<open>w\<close>.\<close>

definition in_window :: "'u \<Rightarrow> int \<Rightarrow> ('u \<times> int) list \<Rightarrow> ('u \<times> int) list" where
  "in_window u w as = filter (\<lambda>(u', t). u' = u \<and> w \<le> t \<and> t < w + 300000) as"

text \<open>A time inside the window that starts at \<open>w\<close>, and the times of the attempts of
  one user.\<close>

definition win :: "int \<Rightarrow> int \<Rightarrow> bool" where
  "win w t = (w \<le> t \<and> t < w + 300000)"

definition of_user :: "'u \<Rightarrow> ('u \<times> int) list \<Rightarrow> int list" where
  "of_user u as = map snd (filter (\<lambda>(u', t). u' = u) as)"

subsection \<open>Creating an order from the client\<close>

text \<open>
  \<^verbatim>\<open>PaymentService.createOrder\<close>. The plan table (\<^verbatim>\<open>data/membershipData\<close> is not among
  the sources), form validation and sanitisation, the transaction id and the answer of
  \<^verbatim>\<open>fetch\<close> are taken from \<open>client_env\<close>; \<open>'f\<close> is the form data. The state is the
  limiter's map and the list of order requests sent over the network.
\<close>

record 'f order_request =
  fr_userId :: string
  fr_planId :: string
  fr_amount :: int
  fr_formData :: 'f
  fr_transactionId :: string

record client_order =
  co_orderId :: string
  co_amount :: int
  co_currency :: string

text \<open>What \<^verbatim>\<open>fetch\<close> and the reading of its answer end in: an exception with its message,
  an answer that is not ok, or the order of the answer.\<close>

datatype fetch_result = FetchError string | NotOk | Ok client_order

record 'f client_env =
  apiBaseUrl :: string
  membershipPlans :: "(string \<times> int) list"
  validatePaymentData :: "'f \<Rightarrow> string \<Rightarrow> string option"
  sanitizeFormData :: "'f \<Rightarrow> 'f"
  generateTransactionId :: string
  fetch_create_order :: "'f order_request \<Rightarrow> fetch_result"

record 'f payment_service =
  rateLimitMap :: "string rateLimitMap"
  sent :: "'f order_request list"

definition createOrder ::
  "'f client_env \<Rightarrow> int \<Rightarrow> string \<Rightarrow> string \<Rightarrow> 'f \<Rightarrow> 'f payment_service \<Rightarrow>
   'f payment_service \<times> (string + client_order)" where
  "createOrder cl now userId planId formData svc =
     (case checkRateLimit now userId (rateLimitMap svc) of
        Inl msg \<Rightarrow> (svc, Inl msg)
      | Inr m' \<Rightarrow>
          let svc1 = svc\<lparr>rateLimitMap := m'\<rparr>
          in case map_of (membershipPlans cl) planId of
               None \<Rightarrow> (svc1, Inl ''Invalid plan selected'')
             | Some plan_price \<Rightarrow>
                 (case validatePaymentData cl formData planId of
                    Some errors \<Rightarrow> (svc1, Inl errors)
                  | None \<Rightarrow>
                      let sanitizedData = sanitizeFormData cl formData;
                          transactionId = generateTransactionId cl
                      in if apiBaseUrl cl \<noteq> [] then
                           let request =
                                 \<lparr>fr_userId = userId, fr_planId = planId,
                                  fr_amount = plan_price, fr_formData = sanitizedData,
                                  fr_transactionId = transactionId\<rparr>;
                               svc2 = svc1\<lparr>sent := sent svc1 @ [request]\<rparr>
                           in case fetch_create_order cl request of
                                FetchError msg \<Rightarrow> (svc2, Inl msg)
                              | NotOk \<Rightarrow> (svc2, Inl ''Failed to create payment order'')
                              | Ok order \<Rightarrow> (svc2, Inr order)
                         else
                           (svc1,
                            Inr \<lparr>co_orderId = ''order_'' @ transactionId,
                                 co_amount = plan_price * 100,
                                 co_currency = ''INR''\<rparr>)))"

subsection \<open>The limiter of the recruitment form\<close>

text \<open>
  \<^verbatim>\<open>useSecureRecruit\<close> keeps a counter and the time of the last attempt in two refs.
  \<^verbatim>\<open>checkPaymentRateLimit\<close> resets the counter when the last attempt is more than
  300000 ms old and refuses at three; \<^verbatim>\<open>handlePayment\<close> then counts the attempt and
  records its time before it calls the payment service.
\<close>

record recruit_refs =
  paymentAttempts :: nat
  lastPaymentTime :: "int option"

definition checkPaymentRateLimit :: "int \<Rightarrow> recruit_refs \<Rightarrow> recruit_refs \<times> bool" where
  "checkPaymentRateLimit now refs =
     (let refs1 =
            (case lastPaymentTime refs of
               None \<Rightarrow> refs
             | Some lastTime \<Rightarrow>
                 if lastTime \<noteq> 0 \<and> now - lastTime > 300000 then refs\<lparr>paymentAttempts := 0\<rparr> else refs)
      in if paymentAttempts refs1 \<ge> 3 then (refs1, False) else (refs1, True))"

definition count_attempt :: "int \<Rightarrow> recruit_refs \<Rightarrow> recruit_refs" where
  "count_attempt now refs =
     refs\<lparr>paymentAttempts := paymentAttempts refs + 1, lastPaymentTime := Some now\<rparr>"

text \<open>The limiter part of \<^verbatim>\<open>handlePayment\<close> over a sequence of attempts, each with its clock
  reading, as long as no payment succeeds in between (a success sets the counter back to
  0); the result lists the attempts that reach the payment service.\<close>

fun recruit_allowed :: "recruit_refs \<Rightarrow> int list \<Rightarrow> int list" where
  "recruit_allowed refs [] = []"
| "recruit_allowed refs (t # ts) =
     (case checkPaymentRateLimit t refs of
        (refs1, True) \<Rightarrow> t # recruit_allowed (count_attempt t refs1) ts
      | (refs1, False) \<Rightarrow> recruit_allowed refs1 ts)"

section \<open>Sample data for the worked examples\<close>

text \<open>
  A concrete environment, store and requests at which the theorems below are evaluated.
  The digest function here is a stand-in that joins key and message (the real one is
  Node's HMAC-SHA256), the serialisation keeps the event name only, and the gateway
  answers every order with a numeric amount.
\<close>

definition sample_env :: server_env where
  "sample_env =
     \<lparr>RAZORPAY_KEY_ID = Some ''rzp_test_1'',
      RAZORPAY_KEY_SECRET = Some ''key-secret'',
      WEBHOOK_SECRET = Some ''hook-secret'',
      hmac_sha256_hex = (\<lambda>key msg. key @ ''#'' @ msg),
      JSON_stringify = (\<lambda>b. js_string (event b)),
      razorpay_orders_create =
        (\<lambda>options.
           case opt_amount options of
             Num n \<Rightarrow>
               Some \<lparr>order_id = ''order_1'', order_amount = n,
                     order_currency = opt_currency options\<rparr>
           | NaN \<Rightarrow> None),
      Date_now = 1793700000000,
      serverTimestamp = 1793700000250,
      LocalTZA = (\<lambda>t isUTC. 19800000),
      get_throws = False,
      set_throws = False,
      add_throws = False\<rparr>"

text \<open>The offsets of the zone America/New_York for the instants and local times of 2026
  and 2027: four hours behind UTC in summer time, five otherwise; a local time that a
  change skips or repeats takes the offset from before the change.\<close>

definition new_york_2026_2027 :: time_zone where
  "new_york_2026_2027 t isUTC =
     (if isUTC then
        (if (1772953200000 \<le> t \<and> t < 1793512800000) \<or>
            (1805007600000 \<le> t \<and> t < 1825567200000)
         then - 14400000 else - 18000000)
      else
        (if (1772938800000 \<le> t \<and> t < 1793498400000) \<or>
            (1804993200000 \<le> t \<and> t < 1825552800000)
         then - 14400000 else - 18000000))"

text \<open>The sample environment in New York at noon of 1 November 2026, ten hours after the
  end of summer time.\<close>

definition sample_env_new_york :: server_env where
  "sample_env_new_york =
     sample_env\<lparr>LocalTZA := new_york_2026_2027, Date_now := 1793552400000\<rparr>"

definition sample_member :: user_doc where
  "sample_member =
     \<lparr>doc_membership =
        Some (empty_membership\<lparr>m_status := Some ''active'', m_type := Some ''one-year'',
                m_expiresAt := Some 1800000000000\<rparr>),
      doc_role = Some ''EXECUTIVE MEMBER'',
      doc_updatedAt = Some 1768500000000\<rparr>"

definition sample_db :: firestore where
  "sample_db = \<lparr>users = [''u2'' \<mapsto> sample_member], payments = []\<rparr>"

definition sample_order_body :: "string \<Rightarrow> create_order_body" where
  "sample_order_body uid =
     \<lparr>req_planId = Some ''one-year'', req_userId = Some uid, req_amount = Some 1\<rparr>"

definition sample_payment :: payment_entity where
  "sample_payment =
     \<lparr>pay_id = ''pay_1'', pay_order_id = ''order_1'', pay_amount = 35800,
      pay_currency = ''INR'',
      pay_notes = Some \<lparr>notes_userId = Some ''u1'', notes_planId = Some ''one-year''\<rparr>\<rparr>"

definition sample_capture :: webhook_body where
  "sample_capture = \<lparr>event = Some ''payment.captured'', entity = Some sample_payment\<rparr>"



definition sample_signature :: "string option" where
  "sample_signature = Some ''hook-secret#payment.captured''"

definition sample_unnoted :: webhook_body where
  "sample_unnoted =
     sample_capture\<lparr>entity :=
       Some (sample_payment\<lparr>pay_notes :=
         Some \<lparr>notes_userId = Some ''u1'', notes_planId = None\<rparr>\<rparr>)\<rparr>"

definition sample_attempts :: "(string \<times> int) list" where
  "sample_attempts =
     [(''u1'', 0), (''u1'', 1000), (''u2'', 1500), (''u1'', 2000), (''u1'', 299999),
      (''u1'', 300000)]"

section \<open>Properties of the sanitizers and the phone validators\<close>

lemma replace_g_absent: "c \<notin> set s \<Longrightarrow> replace_g c r s = s"
  by (induction s) (auto simp: replace_g_def)

lemma replace_g_removes: "c \<notin> set r \<Longrightarrow> c \<notin> set (replace_g c r s)"
  by (auto simp: replace_g_def)

lemma replace_g_keeps_out:
  "x \<notin> set s \<Longrightarrow> x \<notin> set r \<Longrightarrow> x \<notin> set (replace_g c r s)"
  by (auto simp: replace_g_def split: if_splits)

lemma sanitizeInput_clean:
  "sanitizeInput (JString s) = JString r \<Longrightarrow> set r \<inter> escaped7 = {}"
  unfolding sanitizeInput_def escaped7_def
  by (auto simp: replace_g_removes replace_g_keeps_out)

lemma sanitizeInput_fixes_clean:
  "set r \<inter> escaped7 = {} \<Longrightarrow> sanitizeInput (JString r) = JString r"
  unfolding sanitizeInput_def escaped7_def
  by (simp add: replace_g_absent)

lemma sanitizeInput_validation_clean:
  "sanitizeInput_validation (JString s) = Inr r \<Longrightarrow> set r \<inter> escaped5 = {}"
  unfolding sanitizeInput_validation_def escaped5_def
  by (auto simp: replace_g_removes replace_g_keeps_out)

lemma sanitizeInput_validation_fixes_clean:
  "set r \<inter> escaped5 = {} \<Longrightarrow> sanitizeInput_validation (JString r) = Inr r"
  unfolding sanitizeInput_validation_def escaped5_def
  by (simp add: replace_g_absent)

lemma sanitizeInput_string: "\<exists>r. sanitizeInput (JString s) = JString r"
  by (simp add: sanitizeInput_def)

lemma sanitizeInput_validation_string: "\<exists>r. sanitizeInput_validation (JString s) = Inr r"
  by (simp add: sanitizeInput_validation_def)

lemma sanitizeInput_idem: "sanitizeInput (sanitizeInput v) = sanitizeInput v"
proof (cases v)
  case (JString s0)
  obtain r where r: "sanitizeInput v = JString r"
    unfolding JString using sanitizeInput_string by blast
  then have "set r \<inter> escaped7 = {}"
    unfolding JString by (rule sanitizeInput_clean)
  then have "sanitizeInput (JString r) = JString r"
    by (rule sanitizeInput_fixes_clean)
  with r show ?thesis by simp
next
  case (JOther x)
  then show ?thesis by (simp add: sanitizeInput_def)
qed

lemma sanitizeInput_output_clean:
  "\<exists>r. sanitizeInput (JString s) = JString r \<and> set r \<inter> escaped7 = {}"
  using sanitizeInput_clean [of s] by (simp add: sanitizeInput_def)

lemma sanitizeInput_validation_idem:
  "\<exists>r. sanitizeInput_validation (JString s :: 'a js_input) = Inr r \<and>
        sanitizeInput_validation (JString r :: 'a js_input) = Inr r \<and> set r \<inter> escaped5 = {}"
proof -
  obtain r where r: "sanitizeInput_validation (JString s :: 'a js_input) = Inr r"
    using sanitizeInput_validation_string by blast
  then have clean: "set r \<inter> escaped5 = {}"
    by (rule sanitizeInput_validation_clean)
  then have "sanitizeInput_validation (JString r :: 'a js_input) = Inr r"
    by (rule sanitizeInput_validation_fixes_clean)
  with r clean show ?thesis by blast
qed

text \<open>
  Claim C10. Both sanitizers are idempotent. The seven-step one returns its own output
  unchanged when applied again, for every value (a non-string passes through both times);
  its output on a string holds none of the seven characters it escapes. The five-step one,
  on any string, returns a string that holds none of its five characters and that it maps
  to itself.
\<close>

theorem sanitizeInput_idempotent:
  "sanitizeInput (sanitizeInput (v :: 'a js_input)) = sanitizeInput v \<and>
   (\<exists>r. sanitizeInput (JString s :: 'a js_input) = JString r \<and> set r \<inter> escaped7 = {}) \<and>
   (\<exists>r'. sanitizeInput_validation (JString s' :: 'a js_input) = Inr r' \<and>
         sanitizeInput_validation (JString r' :: 'a js_input) = Inr r' \<and>
         set r' \<inter> escaped5 = {})"
  by (intro conjI sanitizeInput_idem sanitizeInput_output_clean sanitizeInput_validation_idem)

theorem sanitizeInput_idempotent_witness:
  "sanitizeInput (JString ''&lt;a href&#x3D;&#x27;x&#x27;&gt;'' :: unit js_input) =
     JString ''&lt;a href&#x3D;&#x27;x&#x27;&gt;'' \<and>
   sanitizeInput (JString ''<a href='' :: unit js_input) = JString ''&lt;a href&#x3D;''"
  using sanitizeInput_idempotent [of "JString ''<a href='' :: unit js_input" "[]" "[]"]
  by (simp add: sanitizeInput_def replace_g_def)

lemma anchored_replicate:
  "anchored_test (replicate n cls) s = (length s = n \<and> list_all (\<lambda>c. c \<in> set cls) s)"
proof (induction n arbitrary: s)
  case 0
  then show ?case by (auto simp: anchored_test_def)
next
  case (Suc n)
  then show ?case by (cases s) (auto simp: anchored_test_def)
qed

lemma anchored_Cons:
  "anchored_test (cls # pat) s =
     (case s of [] \<Rightarrow> False | c # cs \<Rightarrow> c \<in> set cls \<and> anchored_test pat cs)"
  by (cases s) (simp_all add: anchored_test_def)

lemma isValidPhone_spec: "isValidPhone s = spec_ten_digits_leading_6_to_9 s"
  unfolding isValidPhone_def spec_ten_digits_leading_6_to_9_def phoneRegex_def
  by (cases s) (auto simp: anchored_Cons anchored_replicate digit_class_def)

text \<open>
  Claim C8. \<open>isValidPhone\<close> accepts exactly the strings of ten digits whose first digit is
  6, 7, 8 or 9; it rejects 1234567890 and accepts 9876543210. The second validator,
  \<open>validatePhone\<close>, accepts 1234567890.
\<close>

theorem isValidPhone_exact:
  "isValidPhone s = spec_ten_digits_leading_6_to_9 s \<and>
   \<not> isValidPhone ''1234567890'' \<and> isValidPhone ''9876543210'' \<and>
   validatePhone ''1234567890''"
  by (simp add: isValidPhone_spec)
     (simp add: spec_ten_digits_leading_6_to_9_def validatePhone_def anchored_replicate
        digit_class_def)

theorem isValidPhone_exact_witness:
  "isValidPhone ''6000000000'' \<and> \<not> isValidPhone ''600000000'' \<and>
   \<not> isValidPhone ''60000000000'' \<and> \<not> isValidPhone ''6OOOOOOOOO''"
  using isValidPhone_exact [of "''6000000000''"] isValidPhone_exact [of "''600000000''"]
    isValidPhone_exact [of "''60000000000''"] isValidPhone_exact [of "''6OOOOOOOOO''"]
  by (simp add: spec_ten_digits_leading_6_to_9_def digit_class_def)

section \<open>Properties of the order endpoint\<close>

lemma supported_plan:
  "planId \<in> {''one-year'', ''two-year'', ''three-year''} \<Longrightarrow>
     \<exists>p. map_of MEMBERSHIP_PLANS planId = Some p \<and> plan_property planId = OwnPlan p \<and> planId \<noteq> []"
  by (auto simp: MEMBERSHIP_PLANS_def plan_property_def)

lemma request_order_fst:
  "fst (request_order env body planId) =
     Some \<lparr>opt_amount = amount_in_paise (plan_property planId), opt_currency = ''INR'',
           opt_receipt = Date_now env, note_userId = req_userId body, note_planId = planId,
           note_planName = plan_name (plan_property planId)\<rparr>"
  by (simp add: request_order_def Let_def split: option.splits)




lemma create_order_index_supported:
  assumes "map_of MEMBERSHIP_PLANS planId = Some p" "plan_property planId = OwnPlan p" "planId \<noteq> []"
    and "req_planId body = Some planId"
  shows "create_order_index env body = request_order env body planId"
  using assms by (simp add: create_order_index_def)





lemma guard_fires:
  assumes "req_userId body = Some uid" "uid \<noteq> []" "\<not> get_throws env"
    and "users db uid = Some userData" "doc_membership userData = Some m"
    and "m_status m = Some ''active''" "m_expiresAt m = Some expiry" "expiry > Date_now env"
  shows "create_order_part005 env db body =
           (None, Response 400 (ErrorJson ''Invalid plan selected'')) \<or>
         create_order_part005 env db body =
           (None, Response 400 (ErrorJson ''User already has an active subscription''))"
  using assms
  by (simp add: create_order_part005_def get_user_def active_unexpired_def split: option.splits)

lemma guard_fires_supported:
  assumes "req_userId body = Some uid" "uid \<noteq> []" "\<not> get_throws env"
    and "users db uid = Some userData" "doc_membership userData = Some m"
    and "m_status m = Some ''active''" "m_expiresAt m = Some expiry" "expiry > Date_now env"
    and "req_planId body = Some planId" "plan_property planId = OwnPlan p" "planId \<noteq> []"
  shows "create_order_part005 env db body =
           (None, Response 400 (ErrorJson ''User already has an active subscription''))"
  using assms
  by (simp add: create_order_part005_def get_user_def active_unexpired_def)

lemma request_order_minted:
  assumes "fst (request_order env body planId) = Some options"
    and "razorpay_orders_create env options = Some order"
  shows "snd (request_order env body planId) =
           Response 200 (OrderJson (order_id order) (order_amount order) (order_currency order)
             (RAZORPAY_KEY_ID env))"
  using assms by (auto simp: request_order_def Let_def split: option.splits)

text \<open>
  Claim C5. Take a user whose stored membership is active with \<^verbatim>\<open>expiresAt\<close> after now
  (the id is a document path and the read of the document succeeds). The version with the
  guard answers 400 to a create-order request of this user whatever the plan id, and for a
  plan of the catalog with the message of the guard. The version without the guard, for a
  plan of the catalog, sends an order to the gateway and answers 200 with the order the
  gateway returns.
\<close>

theorem duplicate_purchase_guard:
  assumes "req_userId body = Some uid" "uid \<noteq> []" "\<not> get_throws env"
    and "users db uid = Some userData" "doc_membership userData = Some m"
    and "m_status m = Some ''active''" "m_expiresAt m = Some expiry" "expiry > Date_now env"
  shows "(\<exists>msg. create_order_part005 env db body = (None, Response 400 (ErrorJson msg))) \<and>
         (planId \<in> {''one-year'', ''two-year'', ''three-year''} \<and> req_planId body = Some planId \<longrightarrow>
            create_order_part005 env db body =
              (None, Response 400 (ErrorJson ''User already has an active subscription'')) \<and>
            (\<exists>options. fst (create_order_index env body) = Some options \<and>
               (\<forall>order. razorpay_orders_create env options = Some order \<longrightarrow>
                  snd (create_order_index env body) =
                    Response 200 (OrderJson (order_id order) (order_amount order)
                      (order_currency order) (RAZORPAY_KEY_ID env)))))"
proof (intro conjI impI)
  show "\<exists>msg. create_order_part005 env db body = (None, Response 400 (ErrorJson msg))"
    using guard_fires [OF assms] by blast
next
  assume pl: "planId \<in> {''one-year'', ''two-year'', ''three-year''} \<and> req_planId body = Some planId"
  then obtain p where p: "map_of MEMBERSHIP_PLANS planId = Some p"
      "plan_property planId = OwnPlan p" "planId \<noteq> []"
    using supported_plan by blast
  from pl have rp: "req_planId body = Some planId" by simp
  show "create_order_part005 env db body =
          (None, Response 400 (ErrorJson ''User already has an active subscription''))"
    using guard_fires_supported [OF assms rp p(2) p(3)] .
  have idx: "create_order_index env body = request_order env body planId"
    using p rp by (rule create_order_index_supported)
  show "\<exists>options. fst (create_order_index env body) = Some options \<and>
          (\<forall>order. razorpay_orders_create env options = Some order \<longrightarrow>
             snd (create_order_index env body) =
               Response 200 (OrderJson (order_id order) (order_amount order)
                 (order_currency order) (RAZORPAY_KEY_ID env)))"
    unfolding idx using request_order_minted [of env body planId]
    by (simp add: request_order_fst)
qed

theorem duplicate_purchase_guard_witness:
  "create_order_part005 sample_env sample_db (sample_order_body ''u2'') =
     (None, Response 400 (ErrorJson ''User already has an active subscription'')) \<and>
   snd (create_order_index sample_env (sample_order_body ''u2'')) =
     Response 200 (OrderJson ''order_1'' 35800 ''INR'' (Some ''rzp_test_1''))"
  using duplicate_purchase_guard
    [of "sample_order_body ''u2''" "''u2''" sample_env sample_db sample_member
        "empty_membership\<lparr>m_status := Some ''active'', m_type := Some ''one-year'',
           m_expiresAt := Some 1800000000000\<rparr>" 1800000000000 "''one-year''"]
  by (simp add: sample_order_body_def create_order_index_def
      request_order_def plan_property_def MEMBERSHIP_PLANS_def amount_in_paise_def
      sample_env_def sample_db_def sample_member_def plan_name_def)

section \<open>Properties of the verification endpoint\<close>

subsection \<open>The UTF-8 encoding loses nothing on well-formed strings\<close>
















lemma utf8_bytes_append:
  "\<not> low_surrogate d \<Longrightarrow> utf8_bytes (u @ d # v) = utf8_bytes u @ utf8_bytes (d # v)"
  by (induction u rule: utf8_bytes.induct) simp_all

lemma bar_not_surrogate: "\<not> low_surrogate 0x7C" "\<not> high_surrogate 0x7C"
  by (simp_all add: low_surrogate_def high_surrogate_def)


lemma utf16_bar: "utf16 ''|'' = [0x7C]"
  by (simp add: utf16_def)








text \<open>Two unpaired surrogates in the same place are both written as U+FFFD, under every digest
  function.\<close>

lemma lone_surrogates_encoded_alike:
  "utf8_encode (u @ 0xD801 # utf16 ''|'' @ v) = utf8_encode (u @ 0xD800 # utf16 ''|'' @ v)"
proof -
  have "\<not> low_surrogate 0xD800" "\<not> low_surrogate 0xD801"
    "high_surrogate 0xD800" "high_surrogate 0xD801"
    by (simp_all add: low_surrogate_def high_surrogate_def)
  then show ?thesis
    by (simp add: utf8_encode_def utf16_bar utf8_bytes_append bar_not_surrogate)
qed

lemma verify_payment_lone_surrogates:
  "verify_payment env (body\<lparr>razorpay_order_id := Some (u @ [0xD801])\<rparr>) =
   verify_payment env (body\<lparr>razorpay_order_id := Some (u @ [0xD800])\<rparr>)"
  by (cases "RAZORPAY_KEY_SECRET env")
    (simp_all add: verify_payment_def js_utf16_def lone_surrogates_encoded_alike)

subsection \<open>Acceptance\<close>











section \<open>Properties of the date model\<close>

text \<open>
  The search of \<open>YearFromTime\<close> returns the year of the day of \<open>t\<close>: the one whose
  first day is not after it while the first day of the next year is. A year is as long as
  \<open>DaysInYear\<close> says, so the day within the year and the date within the month are in
  range.
\<close>

lemma year_search_lower: "DayFromYear (year_search d y) \<le> d"
  by (induction d y rule: year_search.induct) (subst year_search.simps, simp)

lemma year_search_upper:
  "d < DayFromYear (y + 1) \<Longrightarrow> d < DayFromYear (year_search d y + 1)"
proof (induction d y rule: year_search.induct)
  case (1 d y)
  show ?case
  proof (cases "DayFromYear y \<le> d")
    case True
    then show ?thesis using "1.prems" by (subst year_search.simps) simp
  next
    case False
    then have "d < DayFromYear (year_search d (y - 1) + 1)"
      using "1.IH" by simp
    with False show ?thesis by (subst year_search.simps) simp
  qed
qed

lemma div_bounds:
  fixes x n :: int
  assumes "0 < n"
  shows "n * (x div n) \<le> x" and "x - n + 1 \<le> n * (x div n)"
proof -
  have m: "0 \<le> x mod n" "x mod n < n"
    using assms by simp_all
  have e: "x = n * (x div n) + x mod n"
    by simp
  show "n * (x div n) \<le> x" using e m(1) by linarith
  show "x - n + 1 \<le> n * (x div n)" using e m(2) by linarith
qed

lemma estimate_nonneg:
  assumes "0 \<le> d"
  shows "d < DayFromYear (1970 + d div 365 + 1)"
proof -
  define k where "k = d div 365"
  have k0: "0 \<le> k" using assms by (simp add: k_def pos_imp_zdiv_nonneg_iff)
  have dk: "d < 365 * (k + 1)"
    using div_bounds(2) [of 365 d] by (simp add: k_def)
  define a where "a = (k + 2) div 4"
  define b where "b = (k + 70) div 100"
  define c where "c = (k + 370) div 400"
  have fa: "k + 2 - 3 \<le> 4 * a" using div_bounds(2) [of 4 "k + 2"] by (simp add: a_def)
  have fb: "100 * b \<le> k + 70" using div_bounds(1) [of 100 "k + 70"] by (simp add: b_def)
  have fc: "k + 370 - 399 \<le> 400 * c" using div_bounds(2) [of 400 "k + 370"] by (simp add: c_def)
  have leap: "0 \<le> a - b + c"
  proof (cases "k = 0")
    case True
    then show ?thesis by (simp add: a_def b_def c_def)
  next
    case False
    with k0 have "1 \<le> k" by simp
    with fa fb fc show ?thesis by linarith
  qed
  have "DayFromYear (1970 + k + 1) = 365 * (k + 1) + a - b + c"
    by (simp add: DayFromYear_def a_def b_def c_def algebra_simps)
  with dk leap show ?thesis unfolding k_def by linarith
qed

lemma estimate_neg:
  assumes "d < 0"
  shows "d < DayFromYear (1970 + d div 366 + 1)"
proof -
  define j where "j = d div 366 + 1"
  have j0: "j \<le> 0" using assms by (simp add: j_def div_neg_pos_less0 add1_zle_eq)
  have dj: "d < 366 * j"
    using div_bounds(2) [of 366 d] by (simp add: j_def)
  define a where "a = (j + 1) div 4"
  define b where "b = (j + 69) div 100"
  define c where "c = (j + 369) div 400"
  have fa: "j + 1 - 3 \<le> 4 * a" using div_bounds(2) [of 4 "j + 1"] by (simp add: a_def)
  have fb: "100 * b \<le> j + 69" using div_bounds(1) [of 100 "j + 69"] by (simp add: b_def)
  have fc: "j + 369 - 399 \<le> 400 * c" using div_bounds(2) [of 400 "j + 369"] by (simp add: c_def)
  have leap: "j \<le> a - b + c"
  proof (cases "j = 0 \<or> j = -1")
    case True
    then show ?thesis by (auto simp: a_def b_def c_def)
  next
    case False
    with j0 have "j \<le> -2" by simp
    with fa fb fc show ?thesis by linarith
  qed
  have "DayFromYear (1970 + j) = 365 * j + a - b + c"
    by (simp add: DayFromYear_def a_def b_def c_def algebra_simps)
  with dj leap have "d < DayFromYear (1970 + j)" by linarith
  then show ?thesis by (simp add: j_def algebra_simps)
qed

lemma YearFromTime_is_year:
  "DayFromYear (YearFromTime t) \<le> Day t \<and> Day t < DayFromYear (YearFromTime t + 1)"
proof (cases "0 \<le> Day t")
  case True
  then show ?thesis
    using year_search_lower [of "Day t"] year_search_upper [OF estimate_nonneg [OF True]]
    by (simp add: YearFromTime_def)
next
  case False
  then have neg: "Day t < 0" by simp
  show ?thesis
    using neg year_search_lower [of "Day t"] year_search_upper [OF estimate_neg [OF neg]]
    by (simp add: YearFromTime_def)
qed


lemma div_step:
  fixes x n :: int
  assumes "1 < n"
  shows "x div n - (x - 1) div n = (if x mod n = 0 then 1 else 0)"
proof (cases "x mod n = 0")
  case True
  have "(x - 1) div n = x div n - 1"
  proof (rule int_div_pos_eq [where r = "n - 1"])
    have "x = n * (x div n)" using True by (metis mult_div_mod_eq add.right_neutral)
    then show "x - 1 = n * (x div n - 1) + (n - 1)" by (simp add: algebra_simps)
  qed (use assms in simp_all)
  with True show ?thesis by simp
next
  case False
  have n0: "0 < n" using assms by simp
  have "0 \<le> x mod n" using n0 by (rule pos_mod_sign)
  with False have r1: "0 < x mod n" by simp
  have r2: "x mod n < n" using n0 by (rule pos_mod_bound)
  note r = r1 r2
  have "(x - 1) div n = x div n"
  proof (rule int_div_pos_eq [where r = "x mod n - 1"])
    show "x - 1 = n * (x div n) + (x mod n - 1)" by simp
  qed (use r in simp_all)
  with False show ?thesis by simp
qed

lemma DayFromYear_Suc: "DayFromYear (y + 1) = DayFromYear y + DaysInYear y"
proof -
  have shift: "((y - n * q) mod n = 0) = (y mod n = 0)" for n q :: int
    using dvd_diff_left_iff [of n "n * q" y] by (simp add: mod_eq_0_iff_dvd)
  have m4: "((y - 1968) mod 4 = 0) = (y mod 4 = 0)"
    using shift [of 4 492] by simp
  have m100: "((y - 1900) mod 100 = 0) = (y mod 100 = 0)"
    using shift [of 100 19] by simp
  have m400: "((y - 1600) mod 400 = 0) = (y mod 400 = 0)"
    using shift [of 400 4] by simp
  have d4: "y mod 100 = 0 \<Longrightarrow> y mod 4 = 0"
    using dvd_trans [of 4 100 y] by (simp add: mod_eq_0_iff_dvd)
  have d100: "y mod 400 = 0 \<Longrightarrow> y mod 100 = 0"
    using dvd_trans [of 100 400 y] by (simp add: mod_eq_0_iff_dvd)
  have a: "(y - 1968) div 4 - (y - 1969) div 4 = (if y mod 4 = 0 then 1 else 0)"
    using div_step [of 4 "y - 1968"] by (simp add: m4)
  have b: "(y - 1900) div 100 - (y - 1901) div 100 = (if y mod 100 = 0 then 1 else 0)"
    using div_step [of 100 "y - 1900"] by (simp add: m100)
  have c: "(y - 1600) div 400 - (y - 1601) div 400 = (if y mod 400 = 0 then 1 else 0)"
    using div_step [of 400 "y - 1600"] by (simp add: m400)
  have "DayFromYear (y + 1) - DayFromYear y =
      365 + ((y - 1968) div 4 - (y - 1969) div 4) - ((y - 1900) div 100 - (y - 1901) div 100)
          + ((y - 1600) div 400 - (y - 1601) div 400)"
    by (simp add: DayFromYear_def algebra_simps)
  also have "\<dots> = DaysInYear y"
    unfolding a b c using d4 d100 by (auto simp: DaysInYear_def)
  finally show ?thesis by simp
qed

lemma DayWithinYear_range:
  "0 \<le> DayWithinYear t \<and> DayWithinYear t < DaysInYear (YearFromTime t)"
  using YearFromTime_is_year [of t] DayFromYear_Suc [of "YearFromTime t"]
  by (simp add: DayWithinYear_def)

lemma DateFromTime_range: "1 \<le> DateFromTime t \<and> DateFromTime t \<le> 31"
proof -
  have r: "0 \<le> DayWithinYear t" "DayWithinYear t < DaysInYear (YearFromTime t)"
    using DayWithinYear_range [of t] by simp_all
  show ?thesis
  proof (cases "DaysInYear (YearFromTime t) = 366")
    case True
    with r show ?thesis
      by (simp add: DateFromTime_def MonthFromTime_def days_before_month_def InLeapYear_def
          Let_def)
  next
    case False
    then have "DaysInYear (YearFromTime t) = 365"
      by (simp add: DaysInYear_def split: if_splits)
    with r False show ?thesis
      by (simp add: DateFromTime_def MonthFromTime_def days_before_month_def InLeapYear_def
          Let_def)
  qed
qed

lemma MonthFromTime_range: "0 \<le> MonthFromTime t \<and> MonthFromTime t \<le> 11"
  by (simp add: MonthFromTime_def Let_def)

lemma MakeDay_of_own_date:
  "MakeDay (YearFromTime t) (MonthFromTime t) (DateFromTime t + k) = Day t + k"
proof -
  have m: "MonthFromTime t div 12 = 0" "MonthFromTime t mod 12 = MonthFromTime t"
    using MonthFromTime_range [of t] by simp_all
  show ?thesis
    by (simp add: MakeDay_def m DateFromTime_def InLeapYear_def DayWithinYear_def Let_def)
qed

lemma MakeDate_Day: "MakeDate (Day t + k) (TimeWithinDay t) = t + k * msPerDay"
proof -
  have "t div msPerDay * msPerDay + t mod msPerDay = t"
    by simp
  then show ?thesis
    by (simp add: MakeDate_def Day_def TimeWithinDay_def algebra_simps)
qed

text \<open>\<^verbatim>\<open>setDate(getDate() - 1)\<close> is the same local clock time one day earlier; as an
  instant that is 24 hours back only when the offset of the zone is the same at both
  ends.\<close>

lemma setDate_yesterday:
  "setDate tza now (getDate tza now - 1) = UTC tza (LocalTime tza now - msPerDay)"
  using MakeDay_of_own_date [of "LocalTime tza now" "-1"]
    MakeDate_Day [of "LocalTime tza now" "-1"]
  by (simp add: setDate_def getDate_def Let_def)

lemma setDate_yesterday_fixed_offset:
  assumes "\<And>t b. tza t b = c"
  shows "setDate tza now (getDate tza now - 1) = now - msPerDay"
  by (simp add: setDate_yesterday UTC_def LocalTime_def assms)

text \<open>In a zone with one fixed offset, moving a date one year on with
  \<^verbatim>\<open>setFullYear\<close> adds 365 or 366 days.\<close>

lemma leap_not_twice: "DaysInYear y = 366 \<Longrightarrow> DaysInYear (y + 1) = 365"
proof -
  assume "DaysInYear y = 366"
  then have "y mod 4 = 0" by (simp add: DaysInYear_def split: if_splits)
  then have "(y + 1) mod 4 \<noteq> 0" by presburger
  then show ?thesis by (simp add: DaysInYear_def)
qed

lemma DaysInYear_cases: "DaysInYear y = 365 \<or> DaysInYear y = 366"
  by (simp add: DaysInYear_def)

lemma MakeDay_next_year:
  assumes "0 \<le> m" "m \<le> 11"
  shows "MakeDay (y + 1) m d - MakeDay y m d = 365 \<or> MakeDay (y + 1) m d - MakeDay y m d = 366"
proof -
  have dm: "m div 12 = 0" "m mod 12 = m" using assms by simp_all
  have diff: "MakeDay (y + 1) m d - MakeDay y m d =
      DaysInYear y + days_before_month (if DaysInYear (y + 1) = 366 then 1 else 0) m
        - days_before_month (if DaysInYear y = 366 then 1 else 0) m"
    by (simp add: MakeDay_def dm Let_def DayFromYear_Suc)
  consider (a) "DaysInYear y = 366" "DaysInYear (y + 1) = 365"
    | (b) "DaysInYear y = 365" "DaysInYear (y + 1) = 366"
    | (c) "DaysInYear y = 365" "DaysInYear (y + 1) = 365"
    using DaysInYear_cases [of y] DaysInYear_cases [of "y + 1"] leap_not_twice [of y] by auto
  then show ?thesis
    unfolding diff by cases (simp_all add: days_before_month_def)
qed

lemma setFullYear_next_year:
  assumes fixed: "\<And>t b. tza t b = c"
  shows "setFullYear tza t (getFullYear tza t + 1) - t = 365 * msPerDay \<or>
         setFullYear tza t (getFullYear tza t + 1) - t = 366 * msPerDay"
proof -
  let ?lt = "LocalTime tza t"
  have t: "t = MakeDate (MakeDay (YearFromTime ?lt) (MonthFromTime ?lt) (DateFromTime ?lt))
      (TimeWithinDay ?lt) - c"
    using MakeDay_of_own_date [of ?lt 0] MakeDate_Day [of ?lt 0]
    by (simp add: LocalTime_def fixed)
  have "setFullYear tza t (getFullYear tza t + 1) - t =
      (MakeDay (YearFromTime ?lt + 1) (MonthFromTime ?lt) (DateFromTime ?lt) -
       MakeDay (YearFromTime ?lt) (MonthFromTime ?lt) (DateFromTime ?lt)) * msPerDay"
    by (subst (2) t) (simp add: setFullYear_def getFullYear_def Let_def UTC_def fixed
        MakeDate_def algebra_simps)
  then show ?thesis
    using MakeDay_next_year [of "MonthFromTime ?lt" "YearFromTime ?lt" "DateFromTime ?lt"]
      MonthFromTime_range [of ?lt]
    by auto
qed

section \<open>Properties of the webhook\<close>

lemma webhook_handler_missing:
  "\<not> truthy signature \<Longrightarrow>
     webhook_handler written env db signature body =
       (db, Response 400 (ErrorJson ''Missing signature''))"
  by (simp add: webhook_handler_def)

lemma webhook_handler_mismatch:
  assumes "WEBHOOK_SECRET env = Some secret"
    and "signature \<noteq> Some (hmac_sha256_hex env secret (JSON_stringify env body))"
  shows "webhook_handler written env db signature body =
           (db, Response 400 (ErrorJson ''Missing signature'')) \<or>
         webhook_handler written env db signature body =
           (db, Response 400 (ErrorJson ''Invalid signature''))"
  using assms by (auto simp: webhook_handler_def Let_def)

lemma webhook_handler_never_writes_unsigned:
  assumes "\<And>secret. WEBHOOK_SECRET env = Some secret \<Longrightarrow>
             signature \<noteq> Some (hmac_sha256_hex env secret (JSON_stringify env body))"
  shows "fst (webhook_handler written env db signature body) = db"
  using assms by (auto simp: webhook_handler_def Let_def split: option.splits)

lemma webhook_handler_rejects:
  assumes "signature = None \<or>
           (WEBHOOK_SECRET env = Some secret \<and>
            signature \<noteq> Some (hmac_sha256_hex env secret (JSON_stringify env body)))"
  shows "\<exists>msg. webhook_handler written env db signature body =
           (db, Response 400 (ErrorJson msg))"
proof (cases "signature = None")
  case True
  then show ?thesis by (simp add: webhook_handler_missing truthy_def)
next
  case False
  with assms show ?thesis
    using webhook_handler_mismatch [of env secret signature body written db] by auto
qed

text \<open>
  Claim C3. A webhook request without the signature header, or (with the webhook secret
  configured) with a header that differs from the digest of the body under the secret, is
  answered 400 by both versions of the handler, and the store is returned as it was:
  no membership field and no ledger row is written, whatever the event and the payload.
\<close>

theorem webhook_bad_signature_rejected:
  assumes "signature = None \<or>
           (WEBHOOK_SECRET env = Some secret \<and>
            signature \<noteq> Some (hmac_sha256_hex env secret (JSON_stringify env body)))"
  shows "(\<exists>msg. webhook_index env db signature body = (db, Response 400 (ErrorJson msg))) \<and>
         (\<exists>msg. webhook_part005 env db signature body = (db, Response 400 (ErrorJson msg)))"
  unfolding webhook_index_def webhook_part005_def
  using webhook_handler_rejects [OF assms] by blast

theorem webhook_bad_signature_rejected_witness:
  "WEBHOOK_SECRET sample_env = Some ''hook-secret'' \<and>
   Some ''forged'' \<noteq>
     Some (hmac_sha256_hex sample_env ''hook-secret'' (JSON_stringify sample_env sample_capture)) \<and>
   webhook_part005 sample_env sample_db (Some ''forged'') sample_capture =
     (sample_db, Response 400 (ErrorJson ''Invalid signature'')) \<and>
   webhook_index sample_env sample_db None sample_capture =
     (sample_db, Response 400 (ErrorJson ''Missing signature''))"
  using webhook_bad_signature_rejected
    [of "Some ''forged''" sample_env "''hook-secret''" sample_capture sample_db]
  by (simp add: sample_env_def sample_capture_def js_string_def webhook_part005_def
      webhook_index_def webhook_handler_def truthy_def)

lemma webhook_handler_inapplicable:
  assumes "WEBHOOK_SECRET env = Some secret"
    and "signature = Some (hmac_sha256_hex env secret (JSON_stringify env body))"
    and "hmac_sha256_hex env secret (JSON_stringify env body) \<noteq> []"
    and "event body \<noteq> Some ''payment.captured'' \<or>
         (\<exists>payment n. entity body = Some payment \<and> pay_notes payment = Some n \<and>
            (\<not> truthy (notes_userId n) \<or> \<not> truthy (notes_planId n)))"
  shows "webhook_handler written env db signature body = (db, Response 200 (StatusJson ''ok''))"
  using assms
  by (auto simp: webhook_handler_def Let_def truthy_def split: option.splits)

text \<open>
  Claim C6. A correctly signed webhook request whose event is not
  \<^verbatim>\<open>payment.captured\<close>, or whose captured payment has notes without a non-empty
  \<^verbatim>\<open>userId\<close> or without a non-empty \<^verbatim>\<open>planId\<close>, is answered 200
  \<^verbatim>\<open>{status: "ok"}\<close> by both versions, and the store is returned as it was.
\<close>

theorem webhook_inapplicable_noop:
  assumes "WEBHOOK_SECRET env = Some secret"
    and "signature = Some (hmac_sha256_hex env secret (JSON_stringify env body))"
    and "hmac_sha256_hex env secret (JSON_stringify env body) \<noteq> []"
    and "event body \<noteq> Some ''payment.captured'' \<or>
         (\<exists>payment n. entity body = Some payment \<and> pay_notes payment = Some n \<and>
            (\<not> truthy (notes_userId n) \<or> \<not> truthy (notes_planId n)))"
  shows "webhook_index env db signature body = (db, Response 200 (StatusJson ''ok'')) \<and>
         webhook_part005 env db signature body = (db, Response 200 (StatusJson ''ok''))"
  unfolding webhook_index_def webhook_part005_def
  using webhook_handler_inapplicable [OF assms] by blast

theorem webhook_inapplicable_noop_witness:
  "webhook_part005 sample_env sample_db sample_signature sample_unnoted =
     (sample_db, Response 200 (StatusJson ''ok'')) \<and>
   webhook_index sample_env sample_db sample_signature sample_unnoted =
     (sample_db, Response 200 (StatusJson ''ok'')) \<and>
   webhook_part005 sample_env sample_db (Some ''hook-secret#refund.created'')
       (sample_capture\<lparr>event := Some ''refund.created''\<rparr>) =
     (sample_db, Response 200 (StatusJson ''ok''))"
  using webhook_inapplicable_noop
      [of sample_env "''hook-secret''" sample_signature sample_unnoted sample_db]
    webhook_inapplicable_noop
      [of sample_env "''hook-secret''" "Some ''hook-secret#refund.created''"
          "sample_capture\<lparr>event := Some ''refund.created''\<rparr>" sample_db]
  by (simp add: sample_env_def sample_signature_def sample_unnoted_def sample_capture_def
      sample_payment_def js_string_def truthy_def)

lemma webhook_handler_captured:
  assumes "WEBHOOK_SECRET env = Some secret"
    and "signature = Some (hmac_sha256_hex env secret (JSON_stringify env body))"
    and "hmac_sha256_hex env secret (JSON_stringify env body) \<noteq> []"
    and "event body = Some ''payment.captured''"
    and "entity body = Some payment" "pay_notes payment = Some n"
    and "notes_userId n = Some userId" "notes_planId n = Some planId"
    and "userId \<noteq> []" "planId \<noteq> []"
  shows "webhook_handler written env db signature body =
           apply_capture written env db userId planId payment"
  using assms by (simp add: webhook_handler_def Let_def truthy_def)


lemma expiresAt_yesterday_plus_years:
  "expiresAt env planId =
     setFullYear (LocalTZA env)
       (UTC (LocalTZA env) (LocalTime (LocalTZA env) (Date_now env) - msPerDay))
       (getFullYear (LocalTZA env)
          (UTC (LocalTZA env) (LocalTime (LocalTZA env) (Date_now env) - msPerDay)) +
        durationYears planId)"
  by (simp add: expiresAt_def Let_def setDate_yesterday)

lemma expiresAt_fixed_offset:
  assumes "\<And>t b. LocalTZA env t b = c"
  shows "expiresAt env planId =
     setFullYear (LocalTZA env) (Date_now env - msPerDay)
       (getFullYear (LocalTZA env) (Date_now env - msPerDay) + durationYears planId)"
  by (simp add: expiresAt_def Let_def setDate_yesterday_fixed_offset [OF assms])

lemma users_set_merge:
  "users (set_merge uid upd ts db) uid =
     Some ((case users db uid of None \<Rightarrow> empty_doc | Some d \<Rightarrow> d)
        \<lparr>doc_membership :=
           Some (upd (case doc_membership (case users db uid of None \<Rightarrow> empty_doc | Some d \<Rightarrow> d) of
                        None \<Rightarrow> empty_membership | Some m \<Rightarrow> m)),
         doc_role := Some ''EXECUTIVE MEMBER'',
         doc_updatedAt := Some ts\<rparr>)"
  by (simp add: set_merge_def Let_def)

lemma membership_of_set_merge:
  "membership_of (set_merge uid upd ts db) uid =
     Some (upd (case membership_of db uid of None \<Rightarrow> empty_membership | Some m \<Rightarrow> m))"
  by (simp add: membership_of_def users_set_merge empty_doc_def split: option.splits)

lemma payments_set_merge: "payments (set_merge uid upd ts db) = payments db"
  by (simp add: set_merge_def Let_def)

lemma membership_of_add_payment: "membership_of (add_payment row db) uid = membership_of db uid"
  by (simp add: membership_of_def add_payment_def)

lemma payments_add_payment: "payments (add_payment row db) = payments db @ [row]"
  by (simp add: add_payment_def)

lemma apply_capture_ledger_failure:
  assumes "\<not> set_throws env" "add_throws env"
  shows "apply_capture written env db userId planId payment =
           (set_merge userId (written env planId) (serverTimestamp env) db,
            Response 500 (ErrorJson ''Database update failed''))"
  using assms by (simp add: apply_capture_def Let_def)

lemma apply_capture_success:
  assumes "\<not> set_throws env" "\<not> add_throws env"
  shows "apply_capture written env db userId planId payment =
           (add_payment (payment_log env userId planId payment)
              (set_merge userId (written env planId) (serverTimestamp env) db),
            Response 200 (StatusJson ''ok''))"
  using assms by (simp add: apply_capture_def Let_def)

text \<open>
  Claim C9. A correctly signed \<^verbatim>\<open>payment.captured\<close> request with both notes, in a run
  where the merge into the user document succeeds and the append to the ledger throws, is
  answered 500 by both versions; the ledger is as before, but the membership of the user is
  now active with the new expiry (\<^verbatim>\<open>expiresAt\<close> in the later version,
  \<^verbatim>\<open>expiryDate\<close> in \<^verbatim>\<open>backend/index.js\<close>), and the store differs from the one before
  whenever the user was not active already.
\<close>

theorem webhook_500_not_atomic:
  assumes "WEBHOOK_SECRET env = Some secret"
    and "signature = Some (hmac_sha256_hex env secret (JSON_stringify env body))"
    and "hmac_sha256_hex env secret (JSON_stringify env body) \<noteq> []"
    and "event body = Some ''payment.captured''"
    and "entity body = Some payment" "pay_notes payment = Some n"
    and "notes_userId n = Some userId" "notes_planId n = Some planId"
    and "userId \<noteq> []" "planId \<noteq> []"
    and "\<not> set_throws env" "add_throws env"
  shows "snd (webhook_part005 env db signature body) =
           Response 500 (ErrorJson ''Database update failed'') \<and>
         payments (fst (webhook_part005 env db signature body)) = payments db \<and>
         map_option m_status (membership_of (fst (webhook_part005 env db signature body)) userId) =
           Some (Some ''active'') \<and>
         map_option m_expiresAt (membership_of (fst (webhook_part005 env db signature body)) userId) =
           Some (Some (expiresAt env planId)) \<and>
         snd (webhook_index env db signature body) =
           Response 500 (ErrorJson ''Database update failed'') \<and>
         payments (fst (webhook_index env db signature body)) = payments db \<and>
         map_option m_status (membership_of (fst (webhook_index env db signature body)) userId) =
           Some (Some ''active'') \<and>
         map_option m_expiryDate (membership_of (fst (webhook_index env db signature body)) userId) =
           Some (Some (Date_now env + duration_days planId * 24 * 60 * 60 * 1000)) \<and>
         (map_option m_status (membership_of db userId) \<noteq> Some (Some ''active'') \<longrightarrow>
            fst (webhook_part005 env db signature body) \<noteq> db \<and>
            fst (webhook_index env db signature body) \<noteq> db)"
proof -
  have p: "webhook_part005 env db signature body =
      (set_merge userId (membership_part005 env planId) (serverTimestamp env) db,
       Response 500 (ErrorJson ''Database update failed''))"
    unfolding webhook_part005_def
    using webhook_handler_captured [OF assms(1-10)] apply_capture_ledger_failure [OF assms(11,12)]
    by simp
  have i: "webhook_index env db signature body =
      (set_merge userId (membership_index env planId) (serverTimestamp env) db,
       Response 500 (ErrorJson ''Database update failed''))"
    unfolding webhook_index_def
    using webhook_handler_captured [OF assms(1-10)] apply_capture_ledger_failure [OF assms(11,12)]
    by simp
  have changed: "set_merge userId upd ts db \<noteq> db"
    if "map_option m_status (membership_of db userId) \<noteq> Some (Some ''active'')"
      and "\<And>m. m_status (upd m) = Some ''active''" for upd ts
  proof
    assume "set_merge userId upd ts db = db"
    then have "map_option m_status (membership_of (set_merge userId upd ts db) userId) =
        map_option m_status (membership_of db userId)"
      by simp
    then have "Some (Some ''active'') = map_option m_status (membership_of db userId)"
      by (simp add: membership_of_set_merge that(2))
    with that(1) show False by simp
  qed
  have c5: "fst (webhook_part005 env db signature body) \<noteq> db"
    if "map_option m_status (membership_of db userId) \<noteq> Some (Some ''active'')"
    unfolding p fst_conv using that by (rule changed) (simp add: membership_part005_def)
  have ci: "fst (webhook_index env db signature body) \<noteq> db"
    if "map_option m_status (membership_of db userId) \<noteq> Some (Some ''active'')"
    unfolding i fst_conv using that by (rule changed) (simp add: membership_index_def)
  have facts:
    "snd (webhook_part005 env db signature body) =
       Response 500 (ErrorJson ''Database update failed'')"
    "payments (fst (webhook_part005 env db signature body)) = payments db"
    "map_option m_status (membership_of (fst (webhook_part005 env db signature body)) userId) =
       Some (Some ''active'')"
    "map_option m_expiresAt (membership_of (fst (webhook_part005 env db signature body)) userId) =
       Some (Some (expiresAt env planId))"
    "snd (webhook_index env db signature body) =
       Response 500 (ErrorJson ''Database update failed'')"
    "payments (fst (webhook_index env db signature body)) = payments db"
    "map_option m_status (membership_of (fst (webhook_index env db signature body)) userId) =
       Some (Some ''active'')"
    "map_option m_expiryDate (membership_of (fst (webhook_index env db signature body)) userId) =
       Some (Some (Date_now env + duration_days planId * 24 * 60 * 60 * 1000))"
    unfolding p i
    by (simp_all add: payments_set_merge membership_of_set_merge membership_part005_def
        membership_index_def)
  from facts c5 ci show ?thesis by blast
qed


theorem webhook_500_not_atomic_witness:
  "snd (webhook_part005 (sample_env\<lparr>add_throws := True\<rparr>) sample_db sample_signature
          sample_capture) = Response 500 (ErrorJson ''Database update failed'') \<and>
   membership_of sample_db ''u1'' = None \<and>
   map_option m_status
     (membership_of
        (fst (webhook_part005 (sample_env\<lparr>add_throws := True\<rparr>) sample_db sample_signature
                sample_capture)) ''u1'') = Some (Some ''active'') \<and>
   fst (webhook_part005 (sample_env\<lparr>add_throws := True\<rparr>) sample_db sample_signature
          sample_capture) \<noteq> sample_db"
  using webhook_500_not_atomic
      [of "sample_env\<lparr>add_throws := True\<rparr>" "''hook-secret''" sample_signature sample_capture
          sample_payment "\<lparr>notes_userId = Some ''u1'', notes_planId = Some ''one-year''\<rparr>"
          "''u1''" "''one-year''" sample_db]
  by (simp add: sample_env_def sample_signature_def sample_capture_def sample_payment_def
      js_string_def membership_of_def sample_db_def)

lemma webhook_handler_applied:
  assumes "WEBHOOK_SECRET env = Some secret"
    and "signature = Some (hmac_sha256_hex env secret (JSON_stringify env body))"
    and "hmac_sha256_hex env secret (JSON_stringify env body) \<noteq> []"
    and "event body = Some ''payment.captured''"
    and "entity body = Some payment" "pay_notes payment = Some n"
    and "notes_userId n = Some userId" "notes_planId n = Some planId"
    and "userId \<noteq> []" "planId \<noteq> []"
    and "\<not> set_throws env" "\<not> add_throws env"
  shows "webhook_handler written env db signature body =
           (add_payment (payment_log env userId planId payment)
              (set_merge userId (written env planId) (serverTimestamp env) db),
            Response 200 (StatusJson ''ok''))"
  using webhook_handler_captured [OF assms(1-10)] apply_capture_success [OF assms(11,12)]
  by simp

text \<open>In a zone with one fixed offset the expiry of the one-year plan is 364 or 365 days
  after now; where the offset changes in between it is off by the change.\<close>

lemma expiresAt_one_year_fixed_offset:
  assumes fixed: "\<And>t b. LocalTZA env t b = c"
  shows "expiresAt env ''one-year'' - Date_now env = 364 * msPerDay \<or>
         expiresAt env ''one-year'' - Date_now env = 365 * msPerDay"
proof -
  have y: "UTC (LocalTZA env) (LocalTime (LocalTZA env) (Date_now env) - msPerDay) =
      Date_now env - msPerDay"
    by (simp add: UTC_def LocalTime_def fixed)
  show ?thesis
    using setFullYear_next_year [of "LocalTZA env" c "Date_now env - msPerDay"] fixed
    by (auto simp: expiresAt_yesterday_plus_years y durationYears_def)
qed

lemma sample_expiresAt: "expiresAt sample_env ''one-year'' = 1825149600000"
  by code_simp

lemma sample_expiresAt_new_york: "expiresAt sample_env_new_york ''one-year'' = 1824998400000"
  by code_simp

text \<open>
  Claim C4, amended. A correctly signed \<^verbatim>\<open>payment.captured\<close> request with non-empty
  \<^verbatim>\<open>userId\<close> and \<^verbatim>\<open>planId\<close> notes, in a run where both store calls succeed, is
  answered 200, sets the membership status to active and appends exactly one ledger row,
  whose amount is the captured amount divided by 100, in both versions. The later version
  sets the membership type to \<open>planId\<close> and \<^verbatim>\<open>expiresAt\<close> to yesterday's date at the
  local clock time of now, moved on by the plan's years (1 for one-year, 2 for two-year,
  3 otherwise), as \<^verbatim>\<open>setDate\<close> and \<^verbatim>\<open>setFullYear\<close> compute them in the zone of
  the process; in a zone with one fixed offset that is now minus 24 hours, moved on by the
  plan's years. \<^verbatim>\<open>backend/index.js\<close> computes the expiry as now plus 365 days for
  one-year, 730 for two-year and 1095 otherwise.
\<close>

theorem webhook_capture_applied:
  assumes "WEBHOOK_SECRET env = Some secret"
    and "signature = Some (hmac_sha256_hex env secret (JSON_stringify env body))"
    and "hmac_sha256_hex env secret (JSON_stringify env body) \<noteq> []"
    and "event body = Some ''payment.captured''"
    and "entity body = Some payment" "pay_notes payment = Some n"
    and "notes_userId n = Some userId" "notes_planId n = Some planId"
    and "userId \<noteq> []" "planId \<noteq> []"
    and "\<not> set_throws env" "\<not> add_throws env"
  shows "snd (webhook_part005 env db signature body) = Response 200 (StatusJson ''ok'') \<and>
         map_option m_status (membership_of (fst (webhook_part005 env db signature body)) userId) =
           Some (Some ''active'') \<and>
         map_option m_type (membership_of (fst (webhook_part005 env db signature body)) userId) =
           Some (Some planId) \<and>
         map_option m_expiresAt (membership_of (fst (webhook_part005 env db signature body)) userId) =
           Some (Some (expiresAt env planId)) \<and>
         expiresAt env planId =
           setFullYear (LocalTZA env)
             (UTC (LocalTZA env) (LocalTime (LocalTZA env) (Date_now env) - msPerDay))
             (getFullYear (LocalTZA env)
                (UTC (LocalTZA env) (LocalTime (LocalTZA env) (Date_now env) - msPerDay)) +
              durationYears planId) \<and>
         ((\<forall>t b. LocalTZA env t b = c) \<longrightarrow>
            expiresAt env planId =
              setFullYear (LocalTZA env) (Date_now env - msPerDay)
                (getFullYear (LocalTZA env) (Date_now env - msPerDay) + durationYears planId)) \<and>
         durationYears ''one-year'' = 1 \<and> durationYears ''two-year'' = 2 \<and>
         (planId \<noteq> ''one-year'' \<and> planId \<noteq> ''two-year'' \<longrightarrow> durationYears planId = 3) \<and>
         payments (fst (webhook_part005 env db signature body)) =
           payments db @ [payment_log env userId planId payment] \<and>
         row_amount (payment_log env userId planId payment) = of_int (pay_amount payment) / 100 \<and>
         snd (webhook_index env db signature body) = Response 200 (StatusJson ''ok'') \<and>
         map_option m_status (membership_of (fst (webhook_index env db signature body)) userId) =
           Some (Some ''active'') \<and>
         map_option m_expiryDate (membership_of (fst (webhook_index env db signature body)) userId) =
           Some (Some (Date_now env + duration_days planId * 24 * 60 * 60 * 1000)) \<and>
         duration_days ''one-year'' = 365 \<and> duration_days ''two-year'' = 730 \<and>
         (planId \<noteq> ''one-year'' \<and> planId \<noteq> ''two-year'' \<longrightarrow> duration_days planId = 1095) \<and>
         payments (fst (webhook_index env db signature body)) =
           payments db @ [payment_log env userId planId payment]"
proof -
  have p: "webhook_part005 env db signature body =
      (add_payment (payment_log env userId planId payment)
         (set_merge userId (membership_part005 env planId) (serverTimestamp env) db),
       Response 200 (StatusJson ''ok''))"
    unfolding webhook_part005_def using assms by (rule webhook_handler_applied)
  have i: "webhook_index env db signature body =
      (add_payment (payment_log env userId planId payment)
         (set_merge userId (membership_index env planId) (serverTimestamp env) db),
       Response 200 (StatusJson ''ok''))"
    unfolding webhook_index_def using assms by (rule webhook_handler_applied)
  have written:
    "snd (webhook_part005 env db signature body) = Response 200 (StatusJson ''ok'')"
    "map_option m_status (membership_of (fst (webhook_part005 env db signature body)) userId) =
       Some (Some ''active'')"
    "map_option m_type (membership_of (fst (webhook_part005 env db signature body)) userId) =
       Some (Some planId)"
    "map_option m_expiresAt (membership_of (fst (webhook_part005 env db signature body)) userId) =
       Some (Some (expiresAt env planId))"
    "payments (fst (webhook_part005 env db signature body)) =
       payments db @ [payment_log env userId planId payment]"
    "row_amount (payment_log env userId planId payment) = of_int (pay_amount payment) / 100"
    "snd (webhook_index env db signature body) = Response 200 (StatusJson ''ok'')"
    "map_option m_status (membership_of (fst (webhook_index env db signature body)) userId) =
       Some (Some ''active'')"
    "map_option m_expiryDate (membership_of (fst (webhook_index env db signature body)) userId) =
       Some (Some (Date_now env + duration_days planId * 24 * 60 * 60 * 1000))"
    "payments (fst (webhook_index env db signature body)) =
       payments db @ [payment_log env userId planId payment]"
    unfolding p i
    by (simp_all add: payments_set_merge payments_add_payment membership_of_add_payment
        membership_of_set_merge membership_part005_def membership_index_def
        payment_log_def empty_membership_def split: option.splits)
  have years: "durationYears ''one-year'' = 1" "durationYears ''two-year'' = 2"
      "planId \<noteq> ''one-year'' \<and> planId \<noteq> ''two-year'' \<longrightarrow> durationYears planId = 3"
    by (simp_all add: durationYears_def)
  have days: "duration_days ''one-year'' = 365" "duration_days ''two-year'' = 730"
      "planId \<noteq> ''one-year'' \<and> planId \<noteq> ''two-year'' \<longrightarrow> duration_days planId = 1095"
    by (simp_all add: duration_days_def)
  have fixed: "(\<forall>t b. LocalTZA env t b = c) \<longrightarrow>
      expiresAt env planId =
        setFullYear (LocalTZA env) (Date_now env - msPerDay)
          (getFullYear (LocalTZA env) (Date_now env - msPerDay) + durationYears planId)"
    using expiresAt_fixed_offset [of env c planId] by blast
  show ?thesis
    by (intro conjI written years days fixed expiresAt_yesterday_plus_years)
qed


theorem webhook_capture_applied_witness:
  "snd (webhook_part005 sample_env sample_db sample_signature sample_capture) =
     Response 200 (StatusJson ''ok'') \<and>
   map_option m_type
     (membership_of (fst (webhook_part005 sample_env sample_db sample_signature sample_capture))
        ''u1'') = Some (Some ''one-year'') \<and>
   map_option m_expiresAt
     (membership_of (fst (webhook_part005 sample_env sample_db sample_signature sample_capture))
        ''u1'') = Some (Some 1825149600000) \<and>
   map (\<lambda>r. (row_userId r, row_amount r))
     (payments (fst (webhook_part005 sample_env sample_db sample_signature sample_capture))) =
     [(''u1'', 358)] \<and>
   (\<forall>t b. LocalTZA sample_env t b = 19800000) \<and>
   (1825149600000 :: int) = Date_now sample_env - msPerDay + 365 * msPerDay \<and>
   map_option m_expiresAt
     (membership_of
        (fst (webhook_part005 sample_env_new_york sample_db sample_signature sample_capture))
        ''u1'') = Some (Some 1824998400000) \<and>
   (1824998400000 :: int) = Date_now sample_env_new_york + 364 * msPerDay - 3600000"
proof -
  have india:
    "snd (webhook_part005 sample_env sample_db sample_signature sample_capture) =
       Response 200 (StatusJson ''ok'') \<and>
     map_option m_type
       (membership_of (fst (webhook_part005 sample_env sample_db sample_signature sample_capture))
          ''u1'') = Some (Some ''one-year'') \<and>
     map_option m_expiresAt
       (membership_of (fst (webhook_part005 sample_env sample_db sample_signature sample_capture))
          ''u1'') = Some (Some 1825149600000) \<and>
     map (\<lambda>r. (row_userId r, row_amount r))
       (payments (fst (webhook_part005 sample_env sample_db sample_signature sample_capture))) =
       [(''u1'', 358)]"
    using webhook_capture_applied
      [of sample_env "''hook-secret''" sample_signature sample_capture
          sample_payment "\<lparr>notes_userId = Some ''u1'', notes_planId = Some ''one-year''\<rparr>"
          "''u1''" "''one-year''" sample_db]
    unfolding sample_expiresAt
    by (simp add: sample_env_def sample_signature_def sample_capture_def sample_payment_def
        js_string_def sample_db_def payment_log_def)
  have new_york:
    "map_option m_expiresAt
       (membership_of
          (fst (webhook_part005 sample_env_new_york sample_db sample_signature sample_capture))
          ''u1'') = Some (Some 1824998400000)"
    using webhook_capture_applied
      [of sample_env_new_york "''hook-secret''" sample_signature sample_capture
          sample_payment "\<lparr>notes_userId = Some ''u1'', notes_planId = Some ''one-year''\<rparr>"
          "''u1''" "''one-year''" sample_db]
    unfolding sample_expiresAt_new_york
    by (simp add: sample_env_new_york_def sample_env_def sample_signature_def
        sample_capture_def sample_payment_def js_string_def)
  have "(1824998400000 :: int) = Date_now sample_env_new_york + 364 * msPerDay - 3600000"
    by (simp add: sample_env_new_york_def msPerDay_def)
  moreover have "\<forall>t b. LocalTZA sample_env t b = 19800000"
    by (simp add: sample_env_def)
  moreover have "(1825149600000 :: int) = Date_now sample_env - msPerDay + 365 * msPerDay"
    by (simp add: sample_env_def msPerDay_def)
  ultimately show ?thesis using india new_york by blast
qed

text \<open>
  The claim as first stated fails on \<^verbatim>\<open>backend/index.js\<close>: for the sample capture of
  user u1 and plan one-year the handler answers 200, yet the membership has no
  \<^verbatim>\<open>type\<close> and no \<^verbatim>\<open>expiresAt\<close>. That version stores the plan under
  \<^verbatim>\<open>planId\<close> and the expiry under \<^verbatim>\<open>expiryDate\<close>, names the front end does not
  read (the later version was changed "to match frontend"), and its expiry is now plus 365
  days, a day after the one of the later version.
\<close>

theorem webhook_capture_index_counterexample:
  "snd (webhook_index sample_env sample_db sample_signature sample_capture) =
     Response 200 (StatusJson ''ok'') \<and>
   map_option m_type
     (membership_of (fst (webhook_index sample_env sample_db sample_signature sample_capture))
        ''u1'') \<noteq> Some (Some ''one-year'') \<and>
   map_option m_expiresAt
     (membership_of (fst (webhook_index sample_env sample_db sample_signature sample_capture))
        ''u1'') = Some None \<and>
   map_option m_planId
     (membership_of (fst (webhook_index sample_env sample_db sample_signature sample_capture))
        ''u1'') = Some (Some ''one-year'') \<and>
   map_option m_expiryDate
     (membership_of (fst (webhook_index sample_env sample_db sample_signature sample_capture))
        ''u1'') = Some (Some 1825236000000) \<and>
   (1825236000000 :: int) = Date_now sample_env + 365 * msPerDay \<and>
   expiresAt sample_env ''one-year'' = 1825149600000"
  unfolding sample_expiresAt
  by (simp add: webhook_index_def webhook_handler_def apply_capture_def sample_env_def
      sample_signature_def sample_capture_def sample_payment_def js_string_def truthy_def
      sample_db_def membership_of_def set_merge_def add_payment_def membership_index_def
      empty_doc_def empty_membership_def duration_days_def Let_def msPerDay_def)

section \<open>Properties of the client rate limiter\<close>

lemma attempts_of_update_same: "attempts_of (m(u \<mapsto> ts)) u = ts"
  by (simp add: attempts_of_def)

lemma attempts_of_update_other: "u' \<noteq> u \<Longrightarrow> attempts_of (m(u' \<mapsto> ts)) u = attempts_of m u"
  by (simp add: attempts_of_def)

lemma checkRateLimit_cases:
  "(3 \<le> length (filter (\<lambda>ts. now - ts < 300000) (attempts_of m u)) \<and>
      checkRateLimit now u m = Inl ''Too many payment attempts. Please try again later.'') \<or>
   (length (filter (\<lambda>ts. now - ts < 300000) (attempts_of m u)) < 3 \<and>
      checkRateLimit now u m =
        Inr (m(u \<mapsto> filter (\<lambda>ts. now - ts < 300000) (attempts_of m u) @ [now])))"
  by (auto simp: checkRateLimit_def Let_def)

lemma allowed_attempts_subset: "set (allowed_attempts m as) \<subseteq> set as"
proof (induction as arbitrary: m)
  case Nil
  then show ?case by simp
next
  case (Cons a as)
  obtain u t where a: "a = (u, t)" by (cases a)
  show ?case
  proof (cases "checkRateLimit t u m")
    case (Inl msg)
    then show ?thesis unfolding a using Cons.IH [of m] by auto
  next
    case (Inr m')
    then show ?thesis unfolding a using Cons.IH [of m'] by auto
  qed
qed

lemma in_window_length:
  "length (in_window u w as) = length (filter (win w) (of_user u as))"
  by (induction as) (auto simp: in_window_def of_user_def win_def)

lemma of_user_Cons:
  "of_user u ((u', t) # as) = (if u' = u then t # of_user u as else of_user u as)"
  by (simp add: of_user_def)

lemma of_user_ge:
  assumes "\<forall>(u', t') \<in> set as. t \<le> t'"
  shows "\<forall>x \<in> set (of_user u as). t \<le> x"
  using assms by (auto simp: of_user_def)

lemma filter_win_none:
  assumes "\<forall>x \<in> set xs. w + 300000 \<le> x"
  shows "filter (win w) xs = []"
  using assms by (auto simp: win_def filter_empty_conv)

lemma window_split:
  "length (filter (win w) L) =
     length (filter (win w) (filter (\<lambda>ts. t - ts < 300000) L)) +
     length (filter (win w) (filter (\<lambda>ts. \<not> t - ts < 300000) L))"
  by (induction L) auto

lemma window_bound_general:
  assumes "sorted (map snd as)"
    and "\<forall>ts \<in> set (attempts_of m u). \<forall>(u', t') \<in> set as. ts \<le> t'"
    and "length (attempts_of m u) \<le> 3"
  shows "length (filter (win w) (attempts_of m u @ of_user u (allowed_attempts m as))) \<le> 3"
  using assms
proof (induction as arbitrary: m)
  case Nil
  from Nil.prems(3) show ?case
    by (simp add: of_user_def le_trans [OF length_filter_le])
next
  case (Cons a as)
  obtain u' t where a: "a = (u', t)" by (cases a)
  let ?L = "attempts_of m u"
  have sorted_rest: "sorted (map snd as)" and t_le: "\<forall>(u'', t'') \<in> set as. t \<le> t''"
    using Cons.prems(1) unfolding a by auto
  have stored_le: "\<forall>ts \<in> set ?L. \<forall>(u'', t'') \<in> set as. ts \<le> t''"
    using Cons.prems(2) unfolding a by auto
  have stored_le_t: "\<forall>ts \<in> set ?L. ts \<le> t"
    using Cons.prems(2) unfolding a by auto
  consider
    (refused) "checkRateLimit t u' m = Inl ''Too many payment attempts. Please try again later.''"
  | (other) "u' \<noteq> u"
      "checkRateLimit t u' m =
         Inr (m(u' \<mapsto> filter (\<lambda>ts. t - ts < 300000) (attempts_of m u') @ [t]))"
  | (same) "u' = u" "length (filter (\<lambda>ts. t - ts < 300000) ?L) < 3"
      "checkRateLimit t u m = Inr (m(u \<mapsto> filter (\<lambda>ts. t - ts < 300000) ?L @ [t]))"
    using checkRateLimit_cases [of t m u'] by (cases "u' = u") auto
  then show ?case
  proof cases
    case refused
    then have "allowed_attempts m (a # as) = allowed_attempts m as"
      unfolding a by simp
    then show ?thesis
      using Cons.IH [OF sorted_rest stored_le Cons.prems(3)] by simp
  next
    case other
    let ?m' = "m(u' \<mapsto> filter (\<lambda>ts. t - ts < 300000) (attempts_of m u') @ [t])"
    have same_L: "attempts_of ?m' u = ?L"
      using other(1) by (simp add: attempts_of_update_other)
    have "of_user u (allowed_attempts m (a # as)) = of_user u (allowed_attempts ?m' as)"
      unfolding a using other by (simp add: of_user_Cons)
    moreover have "length (filter (win w) (attempts_of ?m' u @ of_user u (allowed_attempts ?m' as))) \<le> 3"
    proof (rule Cons.IH [OF sorted_rest])
      show "\<forall>ts \<in> set (attempts_of ?m' u). \<forall>(u'', t'') \<in> set as. ts \<le> t''"
        unfolding same_L by (rule stored_le)
      show "length (attempts_of ?m' u) \<le> 3"
        unfolding same_L by (rule Cons.prems(3))
    qed
    ultimately show ?thesis by (simp add: same_L)
  next
    case same
    let ?recent = "filter (\<lambda>ts. t - ts < 300000) ?L"
    let ?dropped = "filter (\<lambda>ts. \<not> t - ts < 300000) ?L"
    let ?m' = "m(u \<mapsto> ?recent @ [t])"
    let ?A = "of_user u (allowed_attempts ?m' as)"
    have stored': "attempts_of ?m' u = ?recent @ [t]"
      by (simp add: attempts_of_update_same)
    have allowed: "of_user u (allowed_attempts m (a # as)) = t # ?A"
      unfolding a using same by (simp add: of_user_Cons)
    have ih: "length (filter (win w) ((?recent @ [t]) @ ?A)) \<le> 3"
    proof -
      have "length (filter (win w) (attempts_of ?m' u @ of_user u (allowed_attempts ?m' as))) \<le> 3"
      proof (rule Cons.IH [OF sorted_rest])
        show "\<forall>ts \<in> set (attempts_of ?m' u). \<forall>(u'', t'') \<in> set as. ts \<le> t''"
          unfolding stored' using stored_le t_le by auto
        show "length (attempts_of ?m' u) \<le> 3"
          unfolding stored' using same(2) by simp
      qed
      then show ?thesis by (simp only: stored')
    qed
    have later: "\<forall>x \<in> set (t # ?A). t \<le> x"
    proof -
      have "\<forall>(u'', t'') \<in> set (allowed_attempts ?m' as). t \<le> t''"
        using t_le allowed_attempts_subset [of ?m' as] by blast
      then show ?thesis using of_user_ge [of "allowed_attempts ?m' as" t u] by simp
    qed
    show ?thesis
    proof (cases "filter (win w) ?dropped = []")
      case True
      have "length (filter (win w) ?L) = length (filter (win w) ?recent)"
        using window_split [of w ?L t] True by simp
      then show ?thesis
        using ih by (simp add: allowed)
    next
      case False
      then obtain ts where ts: "ts \<in> set ?L" "\<not> t - ts < 300000" "win w ts"
        by (auto simp: filter_empty_conv)
      then have "w + 300000 \<le> t"
        by (simp add: win_def)
      with later have "\<forall>x \<in> set (t # ?A). w + 300000 \<le> x"
        by auto
      then have "filter (win w) (t # ?A) = []"
        by (rule filter_win_none)
      moreover have "length (filter (win w) ?L) \<le> 3"
        using length_filter_le [of "win w" ?L] Cons.prems(3) by linarith
      ultimately show ?thesis
        by (simp only: allowed filter_append length_append) simp
    qed
  qed
qed

lemma window_bound:
  assumes "sorted (map snd as)"
  shows "length (in_window u w (allowed_attempts Map.empty as)) \<le> 3"
  using window_bound_general [OF assms, of Map.empty u w]
  by (simp add: in_window_length attempts_of_def)


lemma createOrder_refused:
  assumes "checkRateLimit now userId (rateLimitMap svc) = Inl msg"
  shows "createOrder cl now userId planId formData svc = (svc, Inl msg)"
  using assms by (simp add: createOrder_def)

lemma createOrder_limiter_state:
  "rateLimitMap (fst (createOrder cl now userId planId formData svc)) =
     (case checkRateLimit now userId (rateLimitMap svc) of
        Inl msg \<Rightarrow> rateLimitMap svc
      | Inr m' \<Rightarrow> m')"
  by (simp add: createOrder_def Let_def split: sum.splits option.splits fetch_result.splits)

lemma createOrder_sends_only_if_allowed:
  assumes "sent (fst (createOrder cl now userId planId formData svc)) \<noteq> sent svc"
  shows "\<exists>m'. checkRateLimit now userId (rateLimitMap svc) = Inr m'"
  using assms by (cases "checkRateLimit now userId (rateLimitMap svc)") (simp_all add: createOrder_def)

lemma fourth_attempt_refused:
  assumes "t1 \<le> t2" "t2 \<le> t3" "t3 \<le> t4" "t4 < t1 + 300000"
  shows "allowed_attempts Map.empty [(u, t1), (u, t2), (u, t3), (u, t4)] =
           [(u, t1), (u, t2), (u, t3)]"
  using assms by (simp add: checkRateLimit_def attempts_of_def Let_def)

text \<open>The form's own counter refuses as well once three attempts are counted and the last
  one is at most 300000 ms old.\<close>

lemma recruit_limit_refuses:
  assumes "3 \<le> paymentAttempts refs" "lastPaymentTime refs = Some l" "now - l \<le> 300000"
  shows "checkPaymentRateLimit now refs = (refs, False)"
  using assms by (simp add: checkPaymentRateLimit_def)

lemma checkPaymentRateLimit_cases:
  "(\<exists>l. lastPaymentTime refs = Some l \<and> l \<noteq> 0 \<and> now - l > 300000 \<and>
        checkPaymentRateLimit now refs = (refs\<lparr>paymentAttempts := 0\<rparr>, True)) \<or>
   (\<not> (\<exists>l. lastPaymentTime refs = Some l \<and> l \<noteq> 0 \<and> now - l > 300000) \<and>
      3 \<le> paymentAttempts refs \<and> checkPaymentRateLimit now refs = (refs, False)) \<or>
   (\<not> (\<exists>l. lastPaymentTime refs = Some l \<and> l \<noteq> 0 \<and> now - l > 300000) \<and>
      paymentAttempts refs < 3 \<and> checkPaymentRateLimit now refs = (refs, True))"
  by (auto simp: checkPaymentRateLimit_def Let_def split: option.splits)

lemma recruit_allowed_subset: "set (recruit_allowed refs ts) \<subseteq> set ts"
proof (induction ts arbitrary: refs)
  case Nil
  then show ?case by simp
next
  case (Cons t ts)
  obtain refs1 ok where c: "checkPaymentRateLimit t refs = (refs1, ok)"
    by (cases "checkPaymentRateLimit t refs")
  show ?case
    using Cons.IH [of refs1] Cons.IH [of "count_attempt t refs1"] c
    by (cases ok) auto
qed

lemma recruit_window_general:
  assumes "sorted ts"
    and "\<forall>s \<in> set S. \<forall>t \<in> set ts. s \<le> t"
    and "length S \<le> 3" "length S \<le> paymentAttempts refs"
    and "\<forall>s \<in> set S. \<forall>l. lastPaymentTime refs = Some l \<longrightarrow> s \<le> l"
  shows "length (filter (win w) (S @ recruit_allowed refs ts)) \<le> 3"
  using assms
proof (induction ts arbitrary: refs S)
  case Nil
  then show ?case by (simp add: le_trans [OF length_filter_le])
next
  case (Cons t ts)
  have sorted_rest: "sorted ts" and t_le: "\<forall>t' \<in> set ts. t \<le> t'"
    using Cons.prems(1) by auto
  have S_le: "\<forall>s \<in> set S. \<forall>t' \<in> set ts. s \<le> t'" and S_le_t: "\<forall>s \<in> set S. s \<le> t"
    using Cons.prems(2) by auto
  consider
    (reset) l where "lastPaymentTime refs = Some l" "t - l > 300000"
      "checkPaymentRateLimit t refs = (refs\<lparr>paymentAttempts := 0\<rparr>, True)"
  | (refused) "3 \<le> paymentAttempts refs" "checkPaymentRateLimit t refs = (refs, False)"
  | (counted) "paymentAttempts refs < 3" "checkPaymentRateLimit t refs = (refs, True)"
    using checkPaymentRateLimit_cases [of refs t] by blast
  then show ?case
  proof cases
    case reset
    let ?refs' = "count_attempt t (refs\<lparr>paymentAttempts := 0\<rparr>)"
    let ?A = "recruit_allowed ?refs' ts"
    have run: "recruit_allowed refs (t # ts) = t # ?A"
      using reset(3) by simp
    have ih: "length (filter (win w) ([t] @ ?A)) \<le> 3"
      by (rule Cons.IH [OF sorted_rest]) (use t_le in \<open>simp_all add: count_attempt_def\<close>)
    have later: "\<forall>x \<in> set (t # ?A). t \<le> x"
      using t_le recruit_allowed_subset [of ?refs' ts] by auto
    show ?thesis
    proof (cases "filter (win w) S = []")
      case True
      with ih show ?thesis unfolding run by simp
    next
      case False
      then obtain s where s: "s \<in> set S" "win w s"
        by (auto simp: filter_empty_conv)
      then have "s \<le> l" using Cons.prems(5) reset(1) by blast
      with s(2) reset(2) have "w + 300000 \<le> t"
        by (simp add: win_def)
      with later have "\<forall>x \<in> set (t # ?A). w + 300000 \<le> x"
        by auto
      then have "filter (win w) (t # ?A) = []"
        by (rule filter_win_none)
      moreover have "length (filter (win w) S) \<le> 3"
        using length_filter_le [of "win w" S] Cons.prems(3) by linarith
      ultimately show ?thesis
        by (simp only: run filter_append length_append) simp
    qed
  next
    case refused
    have run: "recruit_allowed refs (t # ts) = recruit_allowed refs ts"
      using refused(2) by simp
    show ?thesis
      unfolding run
      by (rule Cons.IH [OF sorted_rest S_le Cons.prems(3) Cons.prems(4) Cons.prems(5)])
  next
    case counted
    let ?refs' = "count_attempt t refs"
    have run: "recruit_allowed refs (t # ts) = t # recruit_allowed ?refs' ts"
      using counted(2) by simp
    have "length (filter (win w) ((S @ [t]) @ recruit_allowed ?refs' ts)) \<le> 3"
    proof (rule Cons.IH [OF sorted_rest])
      show "\<forall>s \<in> set (S @ [t]). \<forall>t' \<in> set ts. s \<le> t'"
        using S_le t_le by auto
      show "length (S @ [t]) \<le> 3"
        using Cons.prems(4) counted(1) by simp
      show "length (S @ [t]) \<le> paymentAttempts ?refs'"
        using Cons.prems(4) by (simp add: count_attempt_def)
      show "\<forall>s \<in> set (S @ [t]). \<forall>l. lastPaymentTime ?refs' = Some l \<longrightarrow> s \<le> l"
        using S_le_t by (simp add: count_attempt_def)
    qed
    then show ?thesis unfolding run by simp
  qed
qed

lemma recruit_limit_window:
  assumes "sorted ts"
  shows "length (filter (win w)
           (recruit_allowed \<lparr>paymentAttempts = 0, lastPaymentTime = None\<rparr> ts)) \<le> 3"
  using recruit_window_general [OF assms, of "[]" "\<lparr>paymentAttempts = 0, lastPaymentTime = None\<rparr>" w]
  by simp

text \<open>
  Claim C7. Start from the empty limiter map and make any sequence of attempts whose clock
  readings do not decrease. For every user and every window of 300000 ms (from \<open>w\<close>
  up to, not including, \<open>w + 300000\<close>) at most three attempts of the user in the window
  are let through; of four attempts of one user less than 300000 ms apart the first three
  are let through and the fourth is not. The counter of the recruitment form, which sits
  in front of the service, lets through at most three attempts in such a window as well
  (between successful payments). \<^verbatim>\<open>createOrder\<close> calls the limiter first: with
  three recent attempts stored it fails with the limiter's message and the service state,
  the list of sent order requests included, is as before; its effect on the limiter map is
  that of \<^verbatim>\<open>checkRateLimit\<close>, and it sends a request only when the limiter allowed.
\<close>

theorem rate_limit_three_per_window:
  assumes "sorted (map snd as)" and "sorted ts"
  shows "length (in_window u w (allowed_attempts Map.empty as)) \<le> 3 \<and>
         length (filter (win w)
           (recruit_allowed \<lparr>paymentAttempts = 0, lastPaymentTime = None\<rparr> ts)) \<le> 3 \<and>
         (t1 \<le> t2 \<and> t2 \<le> t3 \<and> t3 \<le> t4 \<and> t4 < t1 + 300000 \<longrightarrow>
            allowed_attempts Map.empty [(u, t1), (u, t2), (u, t3), (u, t4)] =
              [(u, t1), (u, t2), (u, t3)]) \<and>
         (3 \<le> length (filter (\<lambda>ts. now - ts < 300000) (attempts_of (rateLimitMap svc) userId)) \<longrightarrow>
            createOrder cl now userId planId formData svc =
              (svc, Inl ''Too many payment attempts. Please try again later.'')) \<and>
         rateLimitMap (fst (createOrder cl now userId planId formData svc)) =
           (case checkRateLimit now userId (rateLimitMap svc) of
              Inl msg \<Rightarrow> rateLimitMap svc
            | Inr m' \<Rightarrow> m') \<and>
         (sent (fst (createOrder cl now userId planId formData svc)) \<noteq> sent svc \<longrightarrow>
            (\<exists>m'. checkRateLimit now userId (rateLimitMap svc) = Inr m'))"
proof (intro conjI impI)
  show "length (in_window u w (allowed_attempts Map.empty as)) \<le> 3"
    using assms(1) by (rule window_bound)
next
  show "length (filter (win w)
      (recruit_allowed \<lparr>paymentAttempts = 0, lastPaymentTime = None\<rparr> ts)) \<le> 3"
    using assms(2) by (rule recruit_limit_window)
next
  assume "t1 \<le> t2 \<and> t2 \<le> t3 \<and> t3 \<le> t4 \<and> t4 < t1 + 300000"
  then show "allowed_attempts Map.empty [(u, t1), (u, t2), (u, t3), (u, t4)] =
      [(u, t1), (u, t2), (u, t3)]"
    by (intro fourth_attempt_refused) simp_all
next
  assume "3 \<le> length (filter (\<lambda>ts. now - ts < 300000) (attempts_of (rateLimitMap svc) userId))"
  then have "checkRateLimit now userId (rateLimitMap svc) =
      Inl ''Too many payment attempts. Please try again later.''"
    using checkRateLimit_cases [of now "rateLimitMap svc" userId] by auto
  then show "createOrder cl now userId planId formData svc =
      (svc, Inl ''Too many payment attempts. Please try again later.'')"
    by (rule createOrder_refused)
next
  show "rateLimitMap (fst (createOrder cl now userId planId formData svc)) =
      (case checkRateLimit now userId (rateLimitMap svc) of
         Inl msg \<Rightarrow> rateLimitMap svc
       | Inr m' \<Rightarrow> m')"
    by (rule createOrder_limiter_state)
next
  assume "sent (fst (createOrder cl now userId planId formData svc)) \<noteq> sent svc"
  then show "\<exists>m'. checkRateLimit now userId (rateLimitMap svc) = Inr m'"
    by (rule createOrder_sends_only_if_allowed)
qed

theorem rate_limit_three_per_window_witness:
  "sorted (map snd sample_attempts) \<and> sorted [0, 1000, 2000, 3000, 302001 :: int] \<and>
   allowed_attempts Map.empty sample_attempts =
     [(''u1'', 0), (''u1'', 1000), (''u2'', 1500), (''u1'', 2000), (''u1'', 300000)] \<and>
   length (in_window ''u1'' 1 (allowed_attempts Map.empty sample_attempts)) = 3 \<and>
   recruit_allowed \<lparr>paymentAttempts = 0, lastPaymentTime = None\<rparr>
     [0, 1000, 2000, 3000, 302001] = [0, 1000, 2000, 302001]"
  using rate_limit_three_per_window
    [of sample_attempts "[0, 1000, 2000, 3000, 302001]" "''u1''" 1]
  by (simp add: sample_attempts_def checkRateLimit_def attempts_of_def in_window_def Let_def
      checkPaymentRateLimit_def count_attempt_def)

end
